theory Spec2Isabelle
  imports Complex_Main
begin

chapter \<open>The NanoGPT assistant plugin: model\<close>

text \<open>
  The plugin is TypeScript running inside a host editor. The model below follows the
  source function by function. Conventions:
  \<^item> a JavaScript string is a \<open>string\<close>; its characters stand for UTF-16 code units in
    the range 0..255, and \<open>length\<close> is the \<open>.length\<close> of the source;
  \<^item> an exception is a value of \<open>js_error\<close>, and a function that can throw returns
    \<open>js_error + 'a\<close> with \<open>Inl\<close> for the throw;
  \<^item> \<open>undefined\<close> is \<open>None\<close> of an option type;
  \<^item> an \<open>async\<close> function that awaits the network in the middle is split at the
    \<open>await\<close>: one function for the part before it, one for the part after it, which
    is handed the state as it is when the awaited promise settles;
  \<^item> what the host runtime provides (the network, the clock, the JSON parser, the
    hash, the vault) is a parameter of the function that uses it.
\<close>

section \<open>JavaScript values\<close>

datatype js_error = Error string | TypeError | RangeError | SyntaxError

text \<open>White space as \<open>String.prototype.trim\<close> and the regular expression class
  \<open>\s\<close> see it, within the range 0..255: tab, line feed, vertical tab, form feed,
  carriage return, space and no-break space.\<close>

definition isWhiteSpace :: "char \<Rightarrow> bool" where
  "isWhiteSpace c =
     (c \<in> {CHR 0x09, CHR 0x0A, CHR 0x0B, CHR 0x0C, CHR 0x0D, CHR 0x20, CHR 0xA0})"

definition trimStart :: "string \<Rightarrow> string" where
  "trimStart s = dropWhile isWhiteSpace s"

definition trimEnd :: "string \<Rightarrow> string" where
  "trimEnd s = rev (dropWhile isWhiteSpace (rev s))"

definition trim :: "string \<Rightarrow> string" where
  "trim s = trimEnd (trimStart s)"

definition startsWith :: "string \<Rightarrow> string \<Rightarrow> bool" where
  "startsWith s p = (take (length p) s = p)"



text \<open>\<open>s.replace(pat, rep)\<close> with a string pattern: the first occurrence only.\<close>

fun replaceFirst :: "string \<Rightarrow> string \<Rightarrow> string \<Rightarrow> string" where
  "replaceFirst [] pat rep = (if pat = [] then rep else [])"
| "replaceFirst (c # cs) pat rep =
     (if startsWith (c # cs) pat then rep @ drop (length pat) (c # cs)
      else c # replaceFirst cs pat rep)"

text \<open>\<open>s.split('\n')\<close>: never empty; the last element is what follows the last
  line feed.\<close>

fun splitLines :: "string \<Rightarrow> string list" where
  "splitLines [] = [[]]"
| "splitLines (c # cs) =
     (if c = CHR 0x0A then [] # splitLines cs
      else (case splitLines cs of
              [] \<Rightarrow> [[c]]
            | l # ls \<Rightarrow> (c # l) # ls))"

text \<open>Decimal rendering of an integer, as a template literal renders a number that
  is an integer of magnitude below \<open>10^21\<close>.\<close>

definition digitChar :: "nat \<Rightarrow> char" where
  "digitChar d = ''0123456789'' ! d"

fun showNat :: "nat \<Rightarrow> string" where
  "showNat n = (if n < 10 then [digitChar n] else showNat (n div 10) @ [digitChar (n mod 10)])"

declare showNat.simps [simp del]

definition showInt :: "int \<Rightarrow> string" where
  "showInt i = (if i < 0 then CHR ''-'' # showNat (nat (- i)) else showNat (nat i))"

text \<open>The double quote character.\<close>

definition dquote :: string where
  "dquote = [CHR 0x22]"

section \<open>JSON values as JavaScript sees them\<close>

text \<open>
  A parsed JSON document. An object is the list of its own properties, each key once.
  A JavaScript value that may be \<open>undefined\<close> is a \<open>json option\<close>.
\<close>

datatype json =
    JNull
  | JBool bool
  | JNum rat
  | JStr string
  | JArr "json list"
  | JObj "(string \<times> json) list"

text \<open>Truthiness, as \<open>if (v)\<close>, \<open>!v\<close> and \<open>v || w\<close> test it.\<close>

fun truthy :: "json option \<Rightarrow> bool" where
  "truthy None = False"
| "truthy (Some JNull) = False"
| "truthy (Some (JBool b)) = b"
| "truthy (Some (JNum n)) = (n \<noteq> 0)"
| "truthy (Some (JStr s)) = (s \<noteq> [])"
| "truthy (Some (JArr xs)) = True"
| "truthy (Some (JObj kvs)) = True"


text \<open>\<open>a || d\<close> where \<open>d\<close> is not \<open>undefined\<close>.\<close>

definition orDefault :: "json option \<Rightarrow> json \<Rightarrow> json" where
  "orDefault a d = (case a of None \<Rightarrow> d | Some v \<Rightarrow> if truthy a then v else d)"

text \<open>
  \<open>v.k\<close> for a property name \<open>k\<close> that is neither an index, nor \<open>length\<close>, nor a
  member of a built-in prototype (every name the client reads is of this kind): a
  \<open>TypeError\<close> on \<open>undefined\<close> and \<open>null\<close>, the property of an object, and
  \<open>undefined\<close> on everything else.
\<close>

fun getProp :: "json option \<Rightarrow> string \<Rightarrow> js_error + json option" where
  "getProp None k = Inl TypeError"
| "getProp (Some JNull) k = Inl TypeError"
| "getProp (Some (JObj kvs)) k = Inr (map_of kvs k)"
| "getProp (Some v) k = Inr None"

text \<open>\<open>v?.k\<close>: \<open>undefined\<close> where \<open>v.k\<close> would throw.\<close>

definition optProp :: "json option \<Rightarrow> string \<Rightarrow> json option" where
  "optProp v k = (case getProp v k of Inl e \<Rightarrow> None | Inr r \<Rightarrow> r)"

text \<open>\<open>v[0]\<close>: the first element of an array, the first character of a string, the
  property \<open>"0"\<close> of an object.\<close>

fun getIndex0 :: "json option \<Rightarrow> js_error + json option" where
  "getIndex0 None = Inl TypeError"
| "getIndex0 (Some JNull) = Inl TypeError"
| "getIndex0 (Some (JArr xs)) = Inr (case xs of [] \<Rightarrow> None | x # _ \<Rightarrow> Some x)"
| "getIndex0 (Some (JStr s)) = Inr (case s of [] \<Rightarrow> None | c # _ \<Rightarrow> Some (JStr [c]))"
| "getIndex0 (Some (JObj kvs)) = Inr (map_of kvs ''0'')"
| "getIndex0 (Some v) = Inr None"

section \<open>The API client (NanoGPTClient)\<close>

subsection \<open>Types of the API (types.ts)\<close>

datatype role = User | Assistant | System

record ChatMessage =
  msg_role :: role
  msg_content :: string
  msg_timestamp :: "string option"
  msg_model :: "string option"

record ImageGenerationRequest =
  ig_prompt :: string
  ig_model :: "string option"
  ig_n :: "rat option"
  ig_size :: "string option"
  ig_quality :: "string option"

datatype search_options = OptionsString string | OptionsObject json

record WebSearchRequest =
  ws_query :: string
  ws_num_results :: "rat option"
  ws_provider :: "string option"
  ws_options :: "search_options option"

record ScrapeUrlsRequest =
  sc_urls :: "string list"
  sc_stealthMode :: "bool option"

record NanoGPTImageModel =
  im_model :: json
  im_name :: json
  im_description :: "json option"
  im_engine :: "json option"

subsection \<open>Requests, responses and the network\<close>

text \<open>The body of a request is kept as the object that \<open>JSON.stringify\<close> is applied
  to, one constructor for each object literal of the client.\<close>

datatype request_body =
    ChatCompletionBody string "ChatMessage list" bool rat int
  | ImageGenerationBody string string rat string string
  | WebSearchBody string "rat option" "string option" "json option"
  | ScrapeUrlsBody ScrapeUrlsRequest

record RequestInit =
  init_method :: "string option"
  init_body :: "request_body option"

record http_request =
  req_url :: string
  req_method :: "string option"
  req_headers :: "(string \<times> string) list"
  req_body :: "request_body option"

text \<open>One \<open>reader.read()\<close> that is not the final \<open>done\<close>: a chunk, already decoded
  to text, or a rejection.\<close>

datatype read_result = Chunk string | ReadFailed js_error

record http_response =
  resp_ok :: bool
  resp_status :: nat
  resp_text :: "js_error + string"
  resp_json :: "js_error + json"
  resp_body :: "read_result list option"

type_synonym network = "http_request \<Rightarrow> js_error + http_response"

type_synonym json_parser = "string \<Rightarrow> js_error + json"

subsection \<open>The client\<close>

record NanoGPTClient =
  apiKey :: string
  baseUrl :: string
  modelCache :: "string \<rightharpoonup> json \<times> int"
  imageModelCache :: "(NanoGPTImageModel list \<times> int) option"



text \<open>
  \<open>fetchWithAuth\<close>. The log is the list of requests handed to \<open>fetch\<close> so far; a
  request is appended exactly when \<open>fetch\<close> is called.
\<close>

definition fetchWithAuth ::
  "network \<Rightarrow> NanoGPTClient \<Rightarrow> string \<Rightarrow> RequestInit \<Rightarrow> http_request list
     \<Rightarrow> (js_error + http_response) \<times> http_request list" where
  "fetchWithAuth net c url options sent =
     (if apiKey c = [] then (Inl (Error ''API key is required''), sent)
      else
        let req = \<lparr>req_url = url, req_method = init_method options,
                   req_headers = [(''Content-Type'', ''application/json''),
                                  (''Authorization'', ''Bearer '' @ apiKey c)],
                   req_body = init_body options\<rparr>;
            sent' = sent @ [req]
        in (case net req of
              Inl e \<Rightarrow> (Inl e, sent')
            | Inr response \<Rightarrow>
                if \<not> resp_ok response then
                  (case resp_text response of
                     Inl e \<Rightarrow> (Inl e, sent')
                   | Inr err \<Rightarrow>
                       (Inl (Error (''NanoGPT API error: '' @ showNat (resp_status response)
                                     @ '' - '' @ err)), sent'))
                else (Inr response, sent')))"

subsection \<open>streamChatCompletion\<close>

text \<open>\<open>chunk.choices[0]?.delta?.content\<close>\<close>

definition chunkContent :: "json \<Rightarrow> js_error + json option" where
  "chunkContent chunk =
     (case getProp (Some chunk) ''choices'' of
        Inl e \<Rightarrow> Inl e
      | Inr choices \<Rightarrow>
          (case getIndex0 choices of
             Inl e \<Rightarrow> Inl e
           | Inr choice \<Rightarrow> Inr (optProp (optProp choice ''delta'') ''content'')))"

text \<open>The body of the \<open>for\<close> loop over the lines: the list of the arguments
  \<open>onChunk\<close> is called with for this line, none or one.\<close>

definition processLine :: "json_parser \<Rightarrow> string \<Rightarrow> json list" where
  "processLine parse line =
     (let trimmedLine = trim line in
      if trimmedLine = [] \<or> trimmedLine = ''data: [DONE]'' then []
      else if \<not> startsWith trimmedLine ''data: '' then []
      else
        (case parse (drop 6 trimmedLine) of
           Inl e \<Rightarrow> []
         | Inr chunk \<Rightarrow>
             (case chunkContent chunk of
                Inl e \<Rightarrow> []
              | Inr content \<Rightarrow>
                  (case content of
                     None \<Rightarrow> []
                   | Some v \<Rightarrow> if truthy content then [v] else []))))"

text \<open>The \<open>while (true)\<close> loop over the reads. The state is the buffer and the calls
  of \<open>onChunk\<close> made so far; the result says whether a read was rejected.\<close>

fun readLoop ::
  "json_parser \<Rightarrow> string \<Rightarrow> json list \<Rightarrow> read_result list \<Rightarrow> (js_error + unit) \<times> json list" where
  "readLoop parse buffer calls [] = (Inr (), calls)"
| "readLoop parse buffer calls (ReadFailed e # rest) = (Inl e, calls)"
| "readLoop parse buffer calls (Chunk v # rest) =
     (let lines = splitLines (buffer @ v) in
      readLoop parse (last lines)
        (calls @ concat (map (processLine parse) (butlast lines))) rest)"

definition streamChatCompletion ::
  "json_parser \<Rightarrow> network \<Rightarrow> NanoGPTClient \<Rightarrow> ChatMessage list \<Rightarrow> string \<Rightarrow> rat \<Rightarrow> int
     \<Rightarrow> http_request list \<Rightarrow> (js_error + unit) \<times> json list \<times> http_request list" where
  "streamChatCompletion parse net c messages model temperature maxTokens sent =
     (case fetchWithAuth net c (baseUrl c @ ''/chat/completions'')
             \<lparr>init_method = Some ''POST'',
              init_body = Some (ChatCompletionBody model messages True temperature maxTokens)\<rparr>
             sent of
        (Inl e, sent') \<Rightarrow> (Inl e, [], sent')
      | (Inr response, sent') \<Rightarrow>
          (case resp_body response of
             None \<Rightarrow> (Inl (Error ''No response body''), [], sent')
           | Some reads \<Rightarrow>
               (case readLoop parse [] [] reads of
                  (outcome, calls) \<Rightarrow> (outcome, calls, sent'))))"

subsection \<open>generateImage, webSearch, scrapeUrls, checkBalance\<close>

text \<open>\<open>s || d\<close> for an optional string and for an optional number.\<close>

definition strOr :: "string option \<Rightarrow> string \<Rightarrow> string" where
  "strOr s d = (case s of None \<Rightarrow> d | Some v \<Rightarrow> if v = [] then d else v)"

definition numOr :: "rat option \<Rightarrow> rat \<Rightarrow> rat" where
  "numOr n d = (case n of None \<Rightarrow> d | Some v \<Rightarrow> if v = 0 then d else v)"

definition generateImage ::
  "network \<Rightarrow> NanoGPTClient \<Rightarrow> ImageGenerationRequest \<Rightarrow> http_request list
     \<Rightarrow> (js_error + json) \<times> http_request list" where
  "generateImage net c request sent =
     (let body = ImageGenerationBody (ig_prompt request)
                   (strOr (ig_model request) ''flux-pro'')
                   (numOr (ig_n request) 1)
                   (strOr (ig_size request) ''1024x1024'')
                   (strOr (ig_quality request) ''standard'')
      in case fetchWithAuth net c (baseUrl c @ ''/images/generations'')
                \<lparr>init_method = Some ''POST'', init_body = Some body\<rparr> sent of
           (Inl e, sent') \<Rightarrow> (Inl e, sent')
         | (Inr response, sent') \<Rightarrow> (resp_json response, sent'))"

definition parseSearchOptions :: "json_parser \<Rightarrow> search_options option \<Rightarrow> json option" where
  "parseSearchOptions parse opts =
     (case opts of
        None \<Rightarrow> None
      | Some (OptionsString str) \<Rightarrow>
          if length (trim str) > 0
          then (case parse str of Inl e \<Rightarrow> None | Inr v \<Rightarrow> Some v)
          else None
      | Some (OptionsObject obj) \<Rightarrow>
          (case obj of JObj kvs \<Rightarrow> Some obj | JArr xs \<Rightarrow> Some obj | _ \<Rightarrow> None))"

definition webSearch ::
  "json_parser \<Rightarrow> network \<Rightarrow> NanoGPTClient \<Rightarrow> WebSearchRequest \<Rightarrow> http_request list
     \<Rightarrow> (js_error + json) \<times> http_request list" where
  "webSearch parse net c request sent =
     (let parsedOptions = parseSearchOptions parse (ws_options request);
          body = WebSearchBody (ws_query request) (ws_num_results request)
                   (case ws_provider request of
                      None \<Rightarrow> None
                    | Some p \<Rightarrow> if p = [] then None else Some p)
                   parsedOptions;
          endpoint = replaceFirst (baseUrl c) ''/v1'' ''/web''
      in case fetchWithAuth net c endpoint
                \<lparr>init_method = Some ''POST'', init_body = Some body\<rparr> sent of
           (Inl e, sent') \<Rightarrow> (Inl e, sent')
         | (Inr response, sent') \<Rightarrow> (resp_json response, sent'))"

definition scrapeUrls ::
  "network \<Rightarrow> NanoGPTClient \<Rightarrow> ScrapeUrlsRequest \<Rightarrow> http_request list
     \<Rightarrow> (js_error + json) \<times> http_request list" where
  "scrapeUrls net c request sent =
     (case fetchWithAuth net c ''https://nano-gpt.com/api/scrape-urls''
             \<lparr>init_method = Some ''POST'', init_body = Some (ScrapeUrlsBody request)\<rparr> sent of
        (Inl e, sent') \<Rightarrow> (Inl e, sent')
      | (Inr response, sent') \<Rightarrow> (resp_json response, sent'))"

definition checkBalance ::
  "network \<Rightarrow> NanoGPTClient \<Rightarrow> http_request list
     \<Rightarrow> (js_error + json) \<times> http_request list" where
  "checkBalance net c sent =
     (case fetchWithAuth net c (baseUrl c @ ''/check-balance'')
             \<lparr>init_method = Some ''GET'', init_body = None\<rparr> sent of
        (Inl e, sent') \<Rightarrow> (Inl e, sent')
      | (Inr response, sent') \<Rightarrow>
          (case resp_json response of
             Inl e \<Rightarrow> (Inl e, sent')
           | Inr data \<Rightarrow>
               (case getProp (Some data) ''balance'' of
                  Inl e \<Rightarrow> (Inl e, sent')
                | Inr balance \<Rightarrow> (Inr (orDefault balance (JNum 0)), sent'))))"

subsection \<open>listModels\<close>







subsection \<open>listImageModels\<close>








section \<open>Files of the vault\<close>

text \<open>A \<open>TFile\<close> of the host, with the fields the plugin reads. \<open>parent\<close> is
  \<open>file.parent?.path\<close>: the path of the parent folder, \<open>None\<close> when there is none.\<close>

record TFile =
  path :: string
  basename :: string
  parent :: "string option"

section \<open>The chat history store (ChatHistoryManager)\<close>












text \<open>Two notes, a message, and two stores: one whose settings hold a history for
  the second note, and one built by saving the same array for both notes.\<close>

definition noteA :: TFile where
  "noteA = \<lparr>path = ''notes/a.md'', basename = ''a'', parent = Some ''notes''\<rparr>"

definition noteB :: TFile where
  "noteB = \<lparr>path = ''notes/b.md'', basename = ''b'', parent = Some ''notes''\<rparr>"

definition helloMessage :: ChatMessage where
  "helloMessage = \<lparr>msg_role = User, msg_content = ''hello'', msg_timestamp = None,
                    msg_model = None\<rparr>"





section \<open>Settings (PluginSettings)\<close>

text \<open>The settings that the functions below read. The two limits are set from
  \<open>parseInt\<close> of a text field, so they are integers of either sign.\<close>

record PluginSettings =
  defaultModel :: string
  temperature :: rat
  maxTokens :: int
  folderContextEnabled :: bool
  folderContextMaxFiles :: int
  folderContextMaxChars :: int

section \<open>Folder context (getFolderContext)\<close>

definition newline :: string where
  "newline = [CHR 0x0A]"

text \<open>The template literal of one entry.\<close>

definition folderEntry :: "TFile \<Rightarrow> string \<Rightarrow> string" where
  "folderEntry file content =
     newline @ ''---'' @ newline @ ''File: '' @ basename file @ newline @ content @ newline"

text \<open>
  The \<open>for\<close> loop over the sibling files, with its three variables. \<open>read\<close> is the
  host's \<open>vault.read\<close>. A \<open>break\<close> returns the entries collected so far; a
  \<open>continue\<close>, and the \<open>catch\<close> of a failed read, go on with the next file.
\<close>

fun collectEntries ::
  "(TFile \<Rightarrow> js_error + string) \<Rightarrow> PluginSettings \<Rightarrow> TFile list
     \<Rightarrow> string list \<Rightarrow> nat \<Rightarrow> nat \<Rightarrow> string list" where
  "collectEntries read settings [] contextEntries totalChars fileCount = contextEntries"
| "collectEntries read settings (file # files) contextEntries totalChars fileCount =
     (if int fileCount \<ge> folderContextMaxFiles settings then contextEntries
      else
        (case read file of
           Inl e \<Rightarrow> collectEntries read settings files contextEntries totalChars fileCount
         | Inr content \<Rightarrow>
             if content = [] then
               collectEntries read settings files contextEntries totalChars fileCount
             else
               (let nextEntry = folderEntry file content in
                if int (totalChars + length nextEntry) > folderContextMaxChars settings
                then contextEntries
                else collectEntries read settings files (contextEntries @ [nextEntry])
                       (totalChars + length nextEntry) (fileCount + 1))))"

definition folderPathOf :: "TFile \<Rightarrow> string" where
  "folderPathOf file = (case parent file of None \<Rightarrow> [] | Some p \<Rightarrow> p)"

text \<open>The filter over \<open>vault.getMarkdownFiles()\<close>.\<close>

definition siblingFiles :: "TFile list \<Rightarrow> TFile \<Rightarrow> TFile list" where
  "siblingFiles markdownFiles file =
     filter (\<lambda>f. if path f = path file then False else parent f = Some (folderPathOf file))
       markdownFiles"

definition contextHeader :: "string \<Rightarrow> string" where
  "contextHeader folderPath =
     newline @ newline @ ''Context from notes in folder '' @ dquote
       @ (if folderPath = [] then ''/'' else folderPath) @ dquote @ '':'' @ newline"

text \<open>\<open>EditNoteModal.getFolderContext\<close>, for the note \<open>file\<close> of the modal.\<close>

definition getFolderContext ::
  "PluginSettings \<Rightarrow> TFile list \<Rightarrow> (TFile \<Rightarrow> js_error + string) \<Rightarrow> TFile \<Rightarrow> string" where
  "getFolderContext settings markdownFiles read file =
     (if \<not> folderContextEnabled settings then []
      else
        (let folderPath = folderPathOf file;
             files = siblingFiles markdownFiles file
         in if length files = 0 then []
            else
              (let contextEntries = collectEntries read settings files [] 0 0
               in if length contextEntries = 0 then []
                  else contextHeader folderPath @ concat contextEntries)))"

text \<open>\<open>ChatView.getFolderContext\<close>: the same body after the test of the active file.\<close>

definition ChatView_getFolderContext ::
  "PluginSettings \<Rightarrow> TFile list \<Rightarrow> (TFile \<Rightarrow> js_error + string) \<Rightarrow> TFile option \<Rightarrow> string" where
  "ChatView_getFolderContext settings markdownFiles read activeFile =
     (case activeFile of
        None \<Rightarrow> []
      | Some file \<Rightarrow>
          if \<not> folderContextEnabled settings then []
          else
            (let folderPath = folderPathOf file;
                 files = siblingFiles markdownFiles file
             in if length files = 0 then []
                else
                  (let contextEntries = collectEntries read settings files [] 0 0
                   in if length contextEntries = 0 then []
                      else contextHeader folderPath @ concat contextEntries)))"

text \<open>For the statement of the properties: the files whose entries the loop
  collects, by the same recursion as \<open>collectEntries\<close>.\<close>

fun usedFiles ::
  "(TFile \<Rightarrow> js_error + string) \<Rightarrow> PluginSettings \<Rightarrow> TFile list \<Rightarrow> nat \<Rightarrow> nat \<Rightarrow> TFile list" where
  "usedFiles read settings [] totalChars fileCount = []"
| "usedFiles read settings (file # files) totalChars fileCount =
     (if int fileCount \<ge> folderContextMaxFiles settings then []
      else
        (case read file of
           Inl e \<Rightarrow> usedFiles read settings files totalChars fileCount
         | Inr content \<Rightarrow>
             if content = [] then usedFiles read settings files totalChars fileCount
             else if int (totalChars + length (folderEntry file content))
                       > folderContextMaxChars settings
             then []
             else file # usedFiles read settings files
                           (totalChars + length (folderEntry file content)) (fileCount + 1)))"

definition entryOf :: "(TFile \<Rightarrow> js_error + string) \<Rightarrow> TFile \<Rightarrow> string" where
  "entryOf read file = (case read file of Inl e \<Rightarrow> [] | Inr content \<Rightarrow> folderEntry file content)"

text \<open>A folder of three notes and a fourth note elsewhere, for the examples.\<close>

definition noteC :: TFile where
  "noteC = \<lparr>path = ''notes/c.md'', basename = ''c'', parent = Some ''notes''\<rparr>"

definition noteElsewhere :: TFile where
  "noteElsewhere = \<lparr>path = ''other/d.md'', basename = ''d'', parent = Some ''other''\<rparr>"

definition exampleRead :: "TFile \<Rightarrow> js_error + string" where
  "exampleRead f = (if path f = ''notes/b.md'' then Inr ''x''
                    else if path f = ''notes/c.md'' then Inr ''yy''
                    else Inr ''zzz'')"

definition exampleSettings :: PluginSettings where
  "exampleSettings = \<lparr>defaultModel = ''zai-org/glm-4.7'', temperature = 7 / 10,
                        maxTokens = 2048, folderContextEnabled = True,
                        folderContextMaxFiles = 5, folderContextMaxChars = 20\<rparr>"

section \<open>The image store (ImageManager)\<close>

text \<open>
  The vault is a map from paths to file contents, a content a list of bytes. The
  host's \<open>vault.createBinary\<close> rejects when a file exists at the path. The host's
  \<open>getAvailablePathForAttachment\<close>, the base64 decoder of \<open>Buffer.from\<close>, the MD5
  digest in hexadecimal and the value of \<open>Date.now()\<close> are parameters.
\<close>

type_synonym bytes = "char list"

datatype notice = Notice string | ErrorNotice js_error

definition createBinary ::
  "(string \<rightharpoonup> bytes) \<Rightarrow> string \<Rightarrow> bytes \<Rightarrow> js_error + (string \<rightharpoonup> bytes)" where
  "createBinary files p data =
     (case files p of
        Some existing \<Rightarrow> Inl (Error ''File already exists.'')
      | None \<Rightarrow> Inr (files(p \<mapsto> data)))"

definition generateShortHash :: "(string \<Rightarrow> string) \<Rightarrow> string \<Rightarrow> string" where
  "generateShortHash md5Hex prompt = take 8 (md5Hex prompt)"

definition saveImageToVault ::
  "(string \<Rightarrow> bytes) \<Rightarrow> (string \<Rightarrow> string) \<Rightarrow> int
     \<Rightarrow> ((string \<rightharpoonup> bytes) \<Rightarrow> string \<Rightarrow> js_error + string)
     \<Rightarrow> string \<Rightarrow> string \<Rightarrow> (string \<rightharpoonup> bytes) \<Rightarrow> notice list
     \<Rightarrow> (js_error + string) \<times> (string \<rightharpoonup> bytes) \<times> notice list" where
  "saveImageToVault decodeBase64 md5Hex now getAvailablePathForAttachment
     base64Data prompt files notices =
     (let uint8Array = decodeBase64 base64Data;
          extension = ''png'';
          timestamp = now;
          hash = generateShortHash md5Hex prompt;
          filename = ''nanogpt-'' @ showInt timestamp @ ''-'' @ hash @ ''.'' @ extension
      in case getAvailablePathForAttachment files filename of
           Inl e \<Rightarrow> (Inl e, files, notices @ [Notice ''Failed to save image to vault''])
         | Inr p \<Rightarrow>
             (case createBinary files p uint8Array of
                Inl e \<Rightarrow> (Inl e, files, notices @ [Notice ''Failed to save image to vault''])
              | Inr files' \<Rightarrow>
                  (Inr (''![['' @ filename @ '']]''), files',
                   notices @ [Notice (''Image saved to: '' @ p)])))"

text \<open>The name that \<open>saveImageToVault\<close> generates, for the statement of the
  property.\<close>

definition generatedName :: "(string \<Rightarrow> string) \<Rightarrow> int \<Rightarrow> string \<Rightarrow> string" where
  "generatedName md5Hex now prompt =
     ''nanogpt-'' @ showInt now @ ''-'' @ take 8 (md5Hex prompt) @ ''.png''"

text \<open>Stand-ins for the host in the example: a decoder and a digest that are fixed
  on the one input of the example, and an attachment folder.\<close>

definition exampleDecode :: "string \<Rightarrow> bytes" where
  "exampleDecode s = (if s = ''aGk='' then ''hi'' else [])"

definition exampleMd5 :: "string \<Rightarrow> string" where
  "exampleMd5 s = (if s = ''a cat'' then ''f1b0656bd8b1fbd5e5d8a8b1b4d8d0c1''
                   else ''d41d8cd98f00b204e9800998ecf8427e'')"

definition exampleAttachmentPath :: "(string \<rightharpoonup> bytes) \<Rightarrow> string \<Rightarrow> js_error + string" where
  "exampleAttachmentPath files filename = Inr (''attachments/'' @ filename)"

section \<open>Notions for the properties of the client\<close>





text \<open>
  The treatment of one line of the stream in the words of the specification: an
  empty line, a line that does not begin with \<open>data: \<close> and the line \<open>data: [DONE]\<close>
  are skipped; otherwise the text after the prefix is parsed, a payload that does not
  parse is skipped, and the content of the payload is handed on when there is one.
\<close>

definition eventOfLine :: "json_parser \<Rightarrow> string \<Rightarrow> json list" where
  "eventOfLine parse line =
     (if line = [] then []
      else if \<not> startsWith line ''data: '' then []
      else if line = ''data: [DONE]'' then []
      else
        (case parse (drop 6 line) of
           Inl e \<Rightarrow> []
         | Inr payload \<Rightarrow>
             (case chunkContent payload of
                Inl e \<Rightarrow> []
              | Inr None \<Rightarrow> []
              | Inr (Some v) \<Rightarrow> if truthy (Some v) then [v] else [])))"

text \<open>The complete lines of a text: what precedes each line feed.\<close>

definition completeLines :: "string \<Rightarrow> string list" where
  "completeLines s = butlast (splitLines s)"

text \<open>For the examples: a payload with the content \<open>hi\<close>, a parser that knows this
  payload only, two clients and two networks.\<close>

definition quoted :: "string \<Rightarrow> string" where
  "quoted s = dquote @ s @ dquote"

definition hiPayload :: string where
  "hiPayload = ''{'' @ quoted ''choices'' @ '':[{'' @ quoted ''delta'' @ '':{''
                 @ quoted ''content'' @ '':'' @ quoted ''hi'' @ ''}}]}''"

definition hiChunk :: json where
  "hiChunk = JObj [(''choices'',
               JArr [JObj [(''delta'', JObj [(''content'', JStr ''hi'')])]])]"

definition exampleParse :: json_parser where
  "exampleParse s = (if s = hiPayload then Inr hiChunk else Inl SyntaxError)"

definition keylessClient :: NanoGPTClient where
  "keylessClient = \<lparr>apiKey = [], baseUrl = ''https://nano-gpt.com/api/v1'',
                     modelCache = Map.empty, imageModelCache = None\<rparr>"

definition exampleClient :: NanoGPTClient where
  "exampleClient = \<lparr>apiKey = ''sk-1'', baseUrl = ''https://nano-gpt.com/api/v1'',
                     modelCache = Map.empty, imageModelCache = None\<rparr>"

definition oneModel :: json where
  "oneModel = JArr [JObj [(''id'', JStr ''m1''), (''object'', JStr ''model'')]]"

definition modelsNetwork :: network where
  "modelsNetwork req =
     Inr \<lparr>resp_ok = True, resp_status = 200, resp_text = Inr [],
          resp_json = Inr (JObj [(''data'', oneModel)]), resp_body = None\<rparr>"


definition streamNetwork :: "string list \<Rightarrow> network" where
  "streamNetwork chunks req =
     Inr \<lparr>resp_ok = True, resp_status = 200, resp_text = Inr [],
          resp_json = Inl SyntaxError, resp_body = Some (map Chunk chunks)\<rparr>"

text \<open>A payload line, the same line after a space, and two streams: one that cuts
  the payload line in two chunks, has an empty line and the sentinel line, and ends
  with a line without line feed; and one whose payload line begins with a space.\<close>

definition payloadLine :: string where
  "payloadLine = ''data: '' @ hiPayload"

definition indentedLine :: string where
  "indentedLine = '' '' @ payloadLine"

definition cutChunks :: "string list" where
  "cutChunks = [take 16 payloadLine,
                drop 16 payloadLine @ newline @ newline @ ''data: [DONE]'' @ newline
                  @ payloadLine]"

definition indentedChunks :: "string list" where
  "indentedChunks = [indentedLine @ newline]"

section \<open>The editor and the ghost text\<close>

subsection \<open>The state of the editor view\<close>

text \<open>
  The host's editor view, as far as the plugin touches it: the document, the
  selection as two offsets, and the value of the state field that the plugin
  registers. A transaction specification, as \<open>view.dispatch\<close> takes it, carries at
  most one change, a list of effects and at most one new cursor position.
\<close>

record GhostTextState =
  ghostText :: string
  ghostPos :: nat

datatype effect = SetGhostText GhostTextState | ClearGhostText | OtherEffect

record change =
  changeFrom :: nat
  changeTo :: nat
  changeInsert :: string

record transaction_spec =
  changes :: "change option"
  effects :: "effect list"
  selection :: "nat option"

record transaction =
  tr_spec :: transaction_spec
  tr_startLength :: nat

record editor_view =
  doc :: string
  selAnchor :: nat
  selHead :: nat
  ghost :: GhostTextState

definition docChanged :: "transaction \<Rightarrow> bool" where
  "docChanged tr =
     (case changes (tr_spec tr) of
        None \<Rightarrow> False
      | Some ch \<Rightarrow> changeFrom ch < changeTo ch \<or> changeInsert ch \<noteq> [])"

text \<open>The host's mapping of a position through a change. \<open>after\<close> says on which
  side of an insertion at the position itself the position ends up.\<close>

definition mapThrough :: "change option \<Rightarrow> bool \<Rightarrow> nat \<Rightarrow> nat" where
  "mapThrough chs after pos =
     (case chs of
        None \<Rightarrow> pos
      | Some ch \<Rightarrow>
          (let f = changeFrom ch; t = changeTo ch; n = length (changeInsert ch) in
           if pos < f then pos
           else if f = t then (if pos = f then (if after then f + n else f) else pos + n)
           else if pos = f then f
           else if pos < t then (if after then f + n else f)
           else pos - (t - f) + n))"

text \<open>\<open>transaction.changes.mapPos(pos)\<close>: a position beyond the end of the start
  document is a \<open>RangeError\<close>.\<close>

definition mapPos :: "transaction \<Rightarrow> nat \<Rightarrow> js_error + nat" where
  "mapPos tr pos =
     (if pos > tr_startLength tr then Inl RangeError
      else Inr (mapThrough (changes (tr_spec tr)) False pos))"

subsection \<open>The state field, the view plugin and the Tab handler\<close>

text \<open>The loop over \<open>transaction.effects\<close> of \<open>ghostTextStateField.update\<close>.\<close>

fun applyEffects :: "GhostTextState \<Rightarrow> effect list \<Rightarrow> GhostTextState" where
  "applyEffects next [] = next"
| "applyEffects next (SetGhostText v # rest) = applyEffects v rest"
| "applyEffects next (ClearGhostText # rest) =
     applyEffects \<lparr>ghostText = [], ghostPos = 0\<rparr> rest"
| "applyEffects next (OtherEffect # rest) = applyEffects next rest"

definition ghostTextStateField_create :: GhostTextState where
  "ghostTextStateField_create = \<lparr>ghostText = [], ghostPos = 0\<rparr>"

definition ghostTextStateField_update ::
  "GhostTextState \<Rightarrow> transaction \<Rightarrow> js_error + GhostTextState" where
  "ghostTextStateField_update val tr =
     (let next = applyEffects val (effects (tr_spec tr)) in
      if docChanged tr \<and> ghostText next \<noteq> [] then
        (case mapPos tr (ghostPos next) of
           Inl e \<Rightarrow> Inl e
         | Inr p \<Rightarrow> Inr (next\<lparr>ghostPos := p\<rparr>))
      else Inr next)"

definition isSetGhostText :: "effect \<Rightarrow> bool" where
  "isSetGhostText e = (case e of SetGhostText v \<Rightarrow> True | _ \<Rightarrow> False)"

text \<open>\<open>ghostTextClearer.update\<close>: whether it dispatches the clearing effect. Its
  arguments are the fields of the update: the new state, the transactions, and the
  two flags.\<close>

definition ghostTextClearer_update ::
  "editor_view \<Rightarrow> transaction list \<Rightarrow> bool \<Rightarrow> bool \<Rightarrow> bool" where
  "ghostTextClearer_update state transactions updDocChanged updSelectionSet =
     (let hasSetEffect =
            list_ex (\<lambda>tr. list_ex isSetGhostText (effects (tr_spec tr))) transactions
      in if hasSetEffect then False
         else if ghostText (ghost state) = [] then False
         else updDocChanged \<or> updSelectionSet)"

text \<open>The host applies a transaction to the state: a change outside the document
  is a \<open>RangeError\<close>, as is a new cursor outside the new document; the state field
  is updated by its \<open>update\<close>; a selection that is not set is mapped through the
  change.\<close>

definition applyTransaction :: "transaction_spec \<Rightarrow> editor_view \<Rightarrow> js_error + editor_view" where
  "applyTransaction spec v =
     (let tr = \<lparr>tr_spec = spec, tr_startLength = length (doc v)\<rparr>;
          valid = (case changes spec of
                     None \<Rightarrow> True
                   | Some ch \<Rightarrow> changeFrom ch \<le> changeTo ch \<and> changeTo ch \<le> length (doc v));
          doc' = (case changes spec of
                    None \<Rightarrow> doc v
                  | Some ch \<Rightarrow>
                      take (changeFrom ch) (doc v) @ changeInsert ch @ drop (changeTo ch) (doc v))
      in if \<not> valid then Inl RangeError
         else
           (case ghostTextStateField_update (ghost v) tr of
              Inl e \<Rightarrow> Inl e
            | Inr g \<Rightarrow>
                (case selection spec of
                   Some p \<Rightarrow>
                     if p > length doc' then Inl RangeError
                     else Inr \<lparr>doc = doc', selAnchor = p, selHead = p, ghost = g\<rparr>
                 | None \<Rightarrow>
                     Inr \<lparr>doc = doc',
                          selAnchor = mapThrough (changes spec)
                                        (selAnchor v < selHead v) (selAnchor v),
                          selHead = mapThrough (changes spec)
                                      (selHead v < selAnchor v) (selHead v),
                          ghost = g\<rparr>)))"

definition clearSpec :: transaction_spec where
  "clearSpec = \<lparr>changes = None, effects = [ClearGhostText], selection = None\<rparr>"

text \<open>
  \<open>view.dispatch\<close>: the transaction is applied and the view plugin is told. When
  the plugin dispatches the clearing effect, that transaction is applied as well;
  after it the ghost text is empty and the plugin is silent.
\<close>

definition dispatch :: "transaction_spec \<Rightarrow> editor_view \<Rightarrow> js_error + editor_view" where
  "dispatch spec v =
     (case applyTransaction spec v of
        Inl e \<Rightarrow> Inl e
      | Inr v1 \<Rightarrow>
          (let tr = \<lparr>tr_spec = spec, tr_startLength = length (doc v)\<rparr> in
           if ghostTextClearer_update v1 [tr] (docChanged tr) (selection spec \<noteq> None)
           then applyTransaction clearSpec v1
           else Inr v1))"

text \<open>\<open>acceptGhostText\<close>, the handler of the Tab key: the value it returns and the
  view after it, or the exception of \<open>dispatch\<close>.\<close>

definition acceptGhostText :: "editor_view \<Rightarrow> js_error + bool \<times> editor_view" where
  "acceptGhostText v =
     (let g = ghost v in
      if ghostText g = [] then Inr (False, v)
      else
        (case dispatch \<lparr>changes = Some \<lparr>changeFrom = ghostPos g, changeTo = ghostPos g,
                                        changeInsert = ghostText g\<rparr>,
                         effects = [ClearGhostText], selection = None\<rparr> v of
           Inl e \<Rightarrow> Inl e
         | Inr v' \<Rightarrow> Inr (True, v')))"

subsection \<open>The editor of the host\<close>

text \<open>
  The host's \<open>Editor\<close> over the view: positions are pairs of a line number and a
  column, both from 0. \<open>hasCm\<close> says whether \<open>editor.cm\<close> is an editor view with a
  \<open>dispatch\<close> function. \<open>getLine\<close> of a line that does not exist is a
  \<open>RangeError\<close>; \<open>posToOffset\<close> clips the position to the document.
\<close>

record editor =
  view :: editor_view
  hasCm :: bool

type_synonym position = "nat \<times> nat"

definition getValue :: "editor \<Rightarrow> string" where
  "getValue e = doc (view e)"

definition offsetToPos :: "string \<Rightarrow> nat \<Rightarrow> position" where
  "offsetToPos d off =
     (let before = splitLines (take off d) in (length before - 1, length (last before)))"

definition getCursor :: "editor \<Rightarrow> position" where
  "getCursor e = offsetToPos (doc (view e)) (selHead (view e))"

definition somethingSelected :: "editor \<Rightarrow> bool" where
  "somethingSelected e = (selAnchor (view e) \<noteq> selHead (view e))"

definition getLine :: "editor \<Rightarrow> nat \<Rightarrow> js_error + string" where
  "getLine e n =
     (let ls = splitLines (doc (view e)) in
      if n < length ls then Inr (ls ! n) else Inl RangeError)"

definition posToOffset :: "editor \<Rightarrow> position \<Rightarrow> nat" where
  "posToOffset e pos =
     (let ls = splitLines (doc (view e)) in
      case pos of (line, ch) \<Rightarrow>
        if line \<ge> length ls then length (doc (view e))
        else length (concat (map (\<lambda>l. l @ newline) (take line ls)))
               + min ch (length (ls ! line)))"

definition replaceRange :: "string \<Rightarrow> position \<Rightarrow> editor \<Rightarrow> js_error + editor" where
  "replaceRange replacement pos e =
     (case dispatch \<lparr>changes = Some \<lparr>changeFrom = posToOffset e pos,
                                     changeTo = posToOffset e pos,
                                     changeInsert = replacement\<rparr>,
                      effects = [], selection = None\<rparr> (view e) of
        Inl err \<Rightarrow> Inl err
      | Inr v' \<Rightarrow> Inr (e\<lparr>view := v'\<rparr>))"

section \<open>Inline autocomplete (NanoGPTPlugin)\<close>

text \<open>The fields of the plugin that \<open>inlineAutocomplete\<close> reads and writes, and the
  notices shown so far. The counter is a JavaScript number that starts at 0 and is
  only ever incremented; it is a natural number here, as it is exact below \<open>2^53\<close>.\<close>

record NanoGPTPlugin =
  inlineAutocompleteInFlight :: bool
  inlineAutocompleteRequestId :: nat
  isApplyingAutocomplete :: bool
  pluginSettings :: PluginSettings
  shownNotices :: "notice list"

definition showNotice :: "bool \<Rightarrow> notice \<Rightarrow> NanoGPTPlugin \<Rightarrow> NanoGPTPlugin" where
  "showNotice silent n p = (if silent then p else p\<lparr>shownNotices := shownNotices p @ [n]\<rparr>)"

definition setGhostText ::
  "editor \<Rightarrow> position \<Rightarrow> string \<Rightarrow> js_error + bool \<times> editor" where
  "setGhostText e cursor txt =
     (if \<not> hasCm e then Inr (False, e)
      else
        (case dispatch \<lparr>changes = None,
                         effects = [SetGhostText \<lparr>ghostText = txt,
                                                   ghostPos = posToOffset e cursor\<rparr>],
                         selection = None\<rparr> (view e) of
           Inl err \<Rightarrow> Inl err
         | Inr v' \<Rightarrow> Inr (True, e\<lparr>view := v'\<rparr>)))"

definition clearGhostText :: "editor \<Rightarrow> js_error + editor" where
  "clearGhostText e =
     (if \<not> hasCm e then Inr e
      else
        (case dispatch clearSpec (view e) of
           Inl err \<Rightarrow> Inl err
         | Inr v' \<Rightarrow> Inr (e\<lparr>view := v'\<rparr>)))"

text \<open>
  \<open>inlineAutocomplete\<close> awaits the streamed completion in its middle. What is kept
  across the \<open>await\<close> is the request id, the cursor, the prefix of the line and the
  flag \<open>silent\<close>; the arguments of the call of \<open>streamChatCompletion\<close> are kept with
  them.
\<close>

record pending_completion =
  pc_requestId :: nat
  pc_cursor :: position
  pc_linePrefix :: string
  pc_silent :: bool
  pc_messages :: "ChatMessage list"
  pc_model :: string
  pc_temperature :: rat
  pc_maxTokens :: int

definition autocompleteSystemPrompt :: string where
  "autocompleteSystemPrompt =
     ''You are an inline autocomplete engine for Obsidian notes. Return only the continuation text to insert at the cursor.''"

definition autocompleteUserPrompt ::
  "TFile \<Rightarrow> string \<Rightarrow> string \<Rightarrow> string \<Rightarrow> string \<Rightarrow> string" where
  "autocompleteUserPrompt file contextSnippet lineText linePrefix lineSuffix =
     ''Note title: '' @ basename file @ newline @ newline
       @ ''Context around cursor:'' @ newline @ contextSnippet @ newline @ newline
       @ ''Current line:'' @ newline @ lineText @ newline
       @ ''Prefix before cursor:'' @ newline @ linePrefix @ newline
       @ ''Suffix after cursor:'' @ newline @ lineSuffix @ newline @ newline
       @ ''Provide the continuation to insert.''"

text \<open>The part of \<open>inlineAutocomplete\<close> before the \<open>await\<close>. The result is
  \<open>Inr None\<close> when the function returns at one of its four tests, \<open>Inr (Some r)\<close>
  when it goes on to request a completion, and \<open>Inl\<close> when it throws.\<close>

definition inlineAutocomplete_begin ::
  "editor \<Rightarrow> TFile \<Rightarrow> bool \<Rightarrow> NanoGPTPlugin
     \<Rightarrow> (js_error + pending_completion option) \<times> NanoGPTPlugin \<times> editor" where
  "inlineAutocomplete_begin e file silent p =
     (if inlineAutocompleteInFlight p then (Inr None, p, e)
      else if somethingSelected e then (Inr None, p, e)
      else
        (let cursor = getCursor e in
         case getLine e (fst cursor) of
           Inl err \<Rightarrow> (Inl err, p, e)
         | Inr lineText \<Rightarrow>
             (let linePrefix = take (snd cursor) lineText;
                  lineSuffix = drop (snd cursor) lineText
              in if length (trim lineSuffix) > 0 then (Inr None, p, e)
                 else if length (trim linePrefix) < 3 then (Inr None, p, e)
                 else
                   (let requestId = inlineAutocompleteRequestId p + 1;
                        p1 = p\<lparr>inlineAutocompleteRequestId := requestId\<rparr>;
                        p2 = showNotice silent (Notice ''Generating autocomplete...'') p1;
                        p3 = p2\<lparr>inlineAutocompleteInFlight := True\<rparr>
                    in case clearGhostText e of
                         Inl err \<Rightarrow> (Inl err, p3, e)
                       | Inr e1 \<Rightarrow>
                           (let fullText = getValue e1;
                                cursorOffset = posToOffset e1 cursor;
                                start = (if cursorOffset \<ge> 2500 then cursorOffset - 2500 else 0);
                                endOffset = min (length fullText) (cursorOffset + 800);
                                contextSnippet = take (endOffset - start) (drop start fullText)
                            in (Inr (Some
                                  \<lparr>pc_requestId = requestId, pc_cursor = cursor,
                                   pc_linePrefix = linePrefix, pc_silent = silent,
                                   pc_messages =
                                     [\<lparr>msg_role = System,
                                       msg_content = autocompleteSystemPrompt,
                                       msg_timestamp = None, msg_model = None\<rparr>,
                                      \<lparr>msg_role = User,
                                       msg_content = autocompleteUserPrompt file contextSnippet
                                                       lineText linePrefix lineSuffix,
                                       msg_timestamp = None, msg_model = None\<rparr>],
                                   pc_model = defaultModel (pluginSettings p3),
                                   pc_temperature = temperature (pluginSettings p3),
                                   pc_maxTokens = min (maxTokens (pluginSettings p3)) 400\<rparr>),
                                p3, e1))))))"

text \<open>The rest of the \<open>try\<close> block, after the \<open>await\<close> has returned with the text
  \<open>completion\<close>: the plugin and the editor are as they are at that moment.\<close>

definition inlineAutocomplete_apply ::
  "pending_completion \<Rightarrow> string \<Rightarrow> NanoGPTPlugin \<Rightarrow> editor
     \<Rightarrow> (js_error + unit) \<times> NanoGPTPlugin \<times> editor" where
  "inlineAutocomplete_apply r completion p e =
     (if pc_requestId r \<noteq> inlineAutocompleteRequestId p then (Inr (), p, e)
      else
        (let currentCursor = getCursor e in
         case getLine e (fst (pc_cursor r)) of
           Inl err \<Rightarrow> (Inl err, p, e)
         | Inr currentLine \<Rightarrow>
             if fst currentCursor \<noteq> fst (pc_cursor r) \<or> snd currentCursor \<noteq> snd (pc_cursor r)
             then (Inr (), p, e)
             else if \<not> startsWith currentLine (pc_linePrefix r) then (Inr (), p, e)
             else
               (let cleanedCompletion = trimEnd (trimStart completion) in
                if cleanedCompletion = [] then
                  (Inr (), showNotice (pc_silent r) (Notice ''No completion returned'') p, e)
                else
                  (case setGhostText e (pc_cursor r) cleanedCompletion of
                     Inl err \<Rightarrow> (Inl err, p, e)
                   | Inr (ghostApplied, e1) \<Rightarrow>
                       if \<not> ghostApplied then
                         (let p1 = p\<lparr>isApplyingAutocomplete := True\<rparr> in
                          case replaceRange cleanedCompletion (pc_cursor r) e1 of
                            Inl err \<Rightarrow> (Inl err, p1, e1)
                          | Inr e2 \<Rightarrow>
                              (Inr (),
                               showNotice (pc_silent r) (Notice ''Autocomplete inserted'')
                                 (p1\<lparr>isApplyingAutocomplete := False\<rparr>),
                               e2))
                       else
                         (Inr (),
                          showNotice (pc_silent r)
                            (Notice ''Autocomplete ready (Tab to accept)'') p,
                          e1)))))"

text \<open>The part of \<open>inlineAutocomplete\<close> after the \<open>await\<close>, with the \<open>catch\<close> and
  the \<open>finally\<close>. \<open>outcome\<close> is the exception that \<open>streamChatCompletion\<close> threw, or
  the text that the chunks added up to.\<close>

definition inlineAutocomplete_resume ::
  "pending_completion \<Rightarrow> js_error + string \<Rightarrow> NanoGPTPlugin \<Rightarrow> editor
     \<Rightarrow> NanoGPTPlugin \<times> editor" where
  "inlineAutocomplete_resume r outcome p e =
     (case (case outcome of
              Inl err \<Rightarrow> (Inl err, p, e)
            | Inr completion \<Rightarrow> inlineAutocomplete_apply r completion p e) of
        (Inl err, p', e') \<Rightarrow>
          ((showNotice (pc_silent r) (ErrorNotice err) p')\<lparr>inlineAutocompleteInFlight := False\<rparr>,
           e')
      | (Inr u, p', e') \<Rightarrow> (p'\<lparr>inlineAutocompleteInFlight := False\<rparr>, e'))"

text \<open>
  What can happen to the plugin and an editor, one event after the other: the
  command or the timer invokes \<open>inlineAutocomplete\<close>; an awaited completion
  settles; the user's typing or cursor movement reaches the view as a transaction.
  \<open>issued\<close> lists the request ids in the order in which invocations obtained them.
\<close>

datatype plugin_event =
    Invoke TFile bool
  | Settle pending_completion "js_error + string"
  | UserTransaction transaction_spec

record plugin_world =
  pw_plugin :: NanoGPTPlugin
  pw_editor :: editor
  issued :: "nat list"

fun pluginStep :: "plugin_world \<Rightarrow> plugin_event \<Rightarrow> plugin_world" where
  "pluginStep w (Invoke file silent) =
     (case inlineAutocomplete_begin (pw_editor w) file silent (pw_plugin w) of
        (Inr (Some r), p', e') \<Rightarrow>
          \<lparr>pw_plugin = p', pw_editor = e', issued = issued w @ [pc_requestId r]\<rparr>
      | (other, p', e') \<Rightarrow> \<lparr>pw_plugin = p', pw_editor = e', issued = issued w\<rparr>)"
| "pluginStep w (Settle r outcome) =
     (case inlineAutocomplete_resume r outcome (pw_plugin w) (pw_editor w) of
        (p', e') \<Rightarrow> \<lparr>pw_plugin = p', pw_editor = e', issued = issued w\<rparr>)"
| "pluginStep w (UserTransaction spec) =
     (case dispatch spec (view (pw_editor w)) of
        Inl err \<Rightarrow> w
      | Inr v' \<Rightarrow> w\<lparr>pw_editor := (pw_editor w)\<lparr>view := v'\<rparr>\<rparr>)"

definition pluginRun :: "plugin_world \<Rightarrow> plugin_event list \<Rightarrow> plugin_world" where
  "pluginRun w events = foldl pluginStep w events"

text \<open>For the examples: a view with the ghost text \<open>world\<close> after \<open>hello \<close>, the
  same view without ghost text, and a plugin at rest.\<close>

definition ghostView :: editor_view where
  "ghostView = \<lparr>doc = ''hello '', selAnchor = 6, selHead = 6,
                 ghost = \<lparr>ghostText = ''world'', ghostPos = 6\<rparr>\<rparr>"

definition plainView :: editor_view where
  "plainView = \<lparr>doc = ''hello '', selAnchor = 6, selHead = 6,
                 ghost = \<lparr>ghostText = [], ghostPos = 0\<rparr>\<rparr>"

definition restingPlugin :: NanoGPTPlugin where
  "restingPlugin = \<lparr>inlineAutocompleteInFlight = False, inlineAutocompleteRequestId = 0,
                     isApplyingAutocomplete = False, pluginSettings = exampleSettings,
                     shownNotices = []\<rparr>"

text \<open>The ids issued so far are strictly increasing and none exceeds the counter.\<close>

definition idsInOrder :: "plugin_world \<Rightarrow> bool" where
  "idsInOrder w =
     (sorted_wrt (<) (issued w)
      \<and> (\<forall>i \<in> set (issued w). i \<le> inlineAutocompleteRequestId (pw_plugin w)))"

text \<open>An editor on the plain view, the request that an invocation on it issues, and
  the world in which nothing has been issued.\<close>

definition plainEditor :: editor where
  "plainEditor = \<lparr>view = plainView, hasCm = True\<rparr>"

definition ghostEditor :: editor where
  "ghostEditor = \<lparr>view = ghostView, hasCm = True\<rparr>"

definition helloRequest :: "nat \<Rightarrow> pending_completion" where
  "helloRequest n =
     \<lparr>pc_requestId = n, pc_cursor = (0, 6), pc_linePrefix = ''hello '', pc_silent = True,
      pc_messages =
        [\<lparr>msg_role = System, msg_content = autocompleteSystemPrompt,
          msg_timestamp = None, msg_model = None\<rparr>,
         \<lparr>msg_role = User,
          msg_content = autocompleteUserPrompt noteA ''hello '' ''hello '' ''hello '' [],
          msg_timestamp = None, msg_model = None\<rparr>],
      pc_model = ''zai-org/glm-4.7'', pc_temperature = 7 / 10, pc_maxTokens = 400\<rparr>"

definition restingWorld :: plugin_world where
  "restingWorld = \<lparr>pw_plugin = restingPlugin, pw_editor = plainEditor, issued = []\<rparr>"

section \<open>The chat panel (ChatView)\<close>















chapter \<open>Properties\<close>

section \<open>The chat history store\<close>












section \<open>Folder context\<close>

lemma collectEntries_usedFiles:
  "collectEntries read s files acc t n = acc @ map (entryOf read) (usedFiles read s files t n)"
  by (induction files arbitrary: acc t n)
     (auto simp add: entryOf_def Let_def split: sum.splits)

lemma usedFiles_subset: "set (usedFiles read s files t n) \<subseteq> set files"
  by (induction files arbitrary: t n) (auto split: sum.splits if_splits)

lemma usedFiles_count:
  "usedFiles read s files t n \<noteq> [] \<Longrightarrow>
   int n + int (length (usedFiles read s files t n)) \<le> folderContextMaxFiles s"
proof (induction files arbitrary: t n)
  case Nil
  then show ?case by simp
next
  case (Cons f fs)
  show ?case
  proof (cases "int n \<ge> folderContextMaxFiles s")
    case True
    with Cons.prems show ?thesis by simp
  next
    case False
    show ?thesis
    proof (cases "read f")
      case (Inl e)
      with False Cons show ?thesis by simp
    next
      case (Inr content)
      show ?thesis
      proof (cases "content = []")
        case True
        with False Inr Cons show ?thesis by simp
      next
        case ne: False
        show ?thesis
        proof (cases "int (t + length (folderEntry f content)) > folderContextMaxChars s")
          case True
          with False Inr ne Cons.prems show ?thesis by simp
        next
          case fits: False
          let ?rest = "usedFiles read s fs (t + length (folderEntry f content)) (n + 1)"
          have eq: "usedFiles read s (f # fs) t n = f # ?rest"
            using False Inr ne fits by simp
          show ?thesis
          proof (cases "?rest = []")
            case True
            with eq False show ?thesis by simp
          next
            case False
            from Cons.IH [OF False] eq show ?thesis by simp
          qed
        qed
      qed
    qed
  qed
qed

lemma usedFiles_chars:
  "usedFiles read s files t n \<noteq> [] \<Longrightarrow>
   int t + int (length (concat (map (entryOf read) (usedFiles read s files t n))))
     \<le> folderContextMaxChars s"
proof (induction files arbitrary: t n)
  case Nil
  then show ?case by simp
next
  case (Cons f fs)
  show ?case
  proof (cases "int n \<ge> folderContextMaxFiles s")
    case True
    with Cons.prems show ?thesis by simp
  next
    case False
    show ?thesis
    proof (cases "read f")
      case (Inl e)
      with False Cons show ?thesis by simp
    next
      case (Inr content)
      show ?thesis
      proof (cases "content = []")
        case True
        with False Inr Cons show ?thesis by simp
      next
        case ne: False
        show ?thesis
        proof (cases "int (t + length (folderEntry f content)) > folderContextMaxChars s")
          case True
          with False Inr ne Cons.prems show ?thesis by simp
        next
          case fits: False
          let ?rest = "usedFiles read s fs (t + length (folderEntry f content)) (n + 1)"
          have eq: "usedFiles read s (f # fs) t n = f # ?rest"
            using False Inr ne fits by simp
          have ent: "entryOf read f = folderEntry f content"
            using Inr by (simp add: entryOf_def)
          show ?thesis
          proof (cases "?rest = []")
            case True
            with eq ent fits show ?thesis by simp
          next
            case False
            from Cons.IH [OF False] eq ent show ?thesis by simp
          qed
        qed
      qed
    qed
  qed
qed

lemma siblingFiles_iff:
  "f \<in> set (siblingFiles markdownFiles file) \<longleftrightarrow>
     f \<in> set markdownFiles \<and> path f \<noteq> path file \<and> parent f = Some (folderPathOf file)"
  by (auto simp add: siblingFiles_def)

lemma getFolderContext_eq:
  "getFolderContext settings markdownFiles read file =
     (if \<not> folderContextEnabled settings
         \<or> usedFiles read settings (siblingFiles markdownFiles file) 0 0 = []
      then []
      else contextHeader (folderPathOf file)
             @ concat (map (entryOf read)
                 (usedFiles read settings (siblingFiles markdownFiles file) 0 0)))"
proof (cases "siblingFiles markdownFiles file")
  case Nil
  then show ?thesis by (simp add: getFolderContext_def)
next
  case (Cons f fs)
  have "collectEntries read settings (f # fs) [] 0 0
          = map (entryOf read) (usedFiles read settings (f # fs) 0 0)"
    using collectEntries_usedFiles [of read settings "f # fs" "[]" 0 0] by simp
  with Cons show ?thesis
    by (simp add: getFolderContext_def Let_def del: usedFiles.simps collectEntries.simps)
qed

lemma ChatView_getFolderContext_eq:
  "ChatView_getFolderContext settings markdownFiles read activeFile =
     (case activeFile of
        None \<Rightarrow> []
      | Some file \<Rightarrow> getFolderContext settings markdownFiles read file)"
  by (simp add: ChatView_getFolderContext_def getFolderContext_def split: option.splits)

text \<open>
  Claim C6, as the code has it. The folder context of a note is empty, or the header
  line followed by the entries of the files the loop used, in both copies of
  \<open>getFolderContext\<close>. Every file used is a markdown file of the vault whose parent
  folder is the note's parent folder and whose path is not the note's path. When any
  file is used, the number of files used is at most \<open>folderContextMaxFiles\<close> and the
  entries together, without the header line, have at most \<open>folderContextMaxChars\<close>
  characters.
\<close>

theorem folder_context_siblings_bounded:
  assumes "used = usedFiles read settings (siblingFiles markdownFiles file) 0 0"
  shows "getFolderContext settings markdownFiles read file =
           (if \<not> folderContextEnabled settings \<or> used = [] then []
            else contextHeader (folderPathOf file) @ concat (map (entryOf read) used))
       \<and> ChatView_getFolderContext settings markdownFiles read (Some file)
           = getFolderContext settings markdownFiles read file
       \<and> ChatView_getFolderContext settings markdownFiles read None = []
       \<and> (\<forall>f \<in> set used. f \<in> set markdownFiles \<and> path f \<noteq> path file
              \<and> parent f = Some (folderPathOf file))
       \<and> (used \<noteq> [] \<longrightarrow>
            int (length used) \<le> folderContextMaxFiles settings
            \<and> int (length (concat (map (entryOf read) used)))
                \<le> folderContextMaxChars settings)"
proof -
  let ?sib = "siblingFiles markdownFiles file"
  have a: "getFolderContext settings markdownFiles read file =
           (if \<not> folderContextEnabled settings \<or> used = [] then []
            else contextHeader (folderPathOf file) @ concat (map (entryOf read) used))"
    unfolding assms by (rule getFolderContext_eq)
  have b: "ChatView_getFolderContext settings markdownFiles read (Some file)
           = getFolderContext settings markdownFiles read file"
    by (simp add: ChatView_getFolderContext_eq)
  have c: "ChatView_getFolderContext settings markdownFiles read None = []"
    by (simp add: ChatView_getFolderContext_eq)
  have "set used \<subseteq> set ?sib"
    unfolding assms by (rule usedFiles_subset)
  then have d: "\<forall>f \<in> set used. f \<in> set markdownFiles \<and> path f \<noteq> path file
              \<and> parent f = Some (folderPathOf file)"
    using siblingFiles_iff by blast
  have e: "used \<noteq> [] \<longrightarrow>
            int (length used) \<le> folderContextMaxFiles settings
            \<and> int (length (concat (map (entryOf read) used)))
                \<le> folderContextMaxChars settings"
    using usedFiles_count [of read settings ?sib 0 0]
      usedFiles_chars [of read settings ?sib 0 0]
    unfolding assms by simp
  from a b c d e show ?thesis by blast
qed

lemma example_usedFiles:
  "usedFiles exampleRead exampleSettings
     (siblingFiles [noteA, noteB, noteC, noteElsewhere] noteA) 0 0 = [noteB]"
  by (simp add: siblingFiles_def folderPathOf_def noteA_def noteB_def noteC_def
        noteElsewhere_def exampleRead_def exampleSettings_def folderEntry_def newline_def)

theorem folder_context_siblings_bounded_witness:
  "getFolderContext exampleSettings [noteA, noteB, noteC, noteElsewhere] exampleRead noteA
     = contextHeader ''notes'' @ folderEntry noteB ''x''
   \<and> int (length [noteB]) \<le> folderContextMaxFiles exampleSettings
   \<and> int (length (folderEntry noteB ''x'')) \<le> folderContextMaxChars exampleSettings"
  using folder_context_siblings_bounded
          [of "[noteB]" exampleRead exampleSettings "[noteA, noteB, noteC, noteElsewhere]" noteA]
        example_usedFiles
  by (simp add: entryOf_def exampleRead_def exampleSettings_def noteA_def noteB_def
        folderPathOf_def)

text \<open>The claim as the specification words it bounds the assembled text by the
  character limit. The header line is not counted by the loop: with a limit of 20
  characters the text returned has 55.\<close>

theorem folder_context_length_counterexample:
  "folderContextMaxChars exampleSettings = 20
   \<and> length (getFolderContext exampleSettings [noteA, noteB, noteC, noteElsewhere]
               exampleRead noteA) = 55"
  by (simp add: getFolderContext_def siblingFiles_def folderPathOf_def noteA_def noteB_def
        noteC_def noteElsewhere_def exampleRead_def exampleSettings_def folderEntry_def
        newline_def contextHeader_def dquote_def)

section \<open>The image store\<close>

text \<open>
  Claim C7. When the host returns a path for the generated name and no file exists
  at that path, \<open>saveImageToVault\<close> creates a file there whose content is the decoded
  payload, and returns the embed link of the generated name
  \<open>nanogpt-<timestamp>-<first 8 hex digits of the MD5 of the prompt>.png\<close>.
\<close>

theorem saveImageToVault_creates_and_links:
  assumes "getAvailablePathForAttachment files (generatedName md5Hex now prompt) = Inr p"
    and "files p = None"
  shows "saveImageToVault decodeBase64 md5Hex now getAvailablePathForAttachment
           base64Data prompt files notices
         = (Inr (''![['' @ generatedName md5Hex now prompt @ '']]''),
            files(p \<mapsto> decodeBase64 base64Data),
            notices @ [Notice (''Image saved to: '' @ p)])"
  using assms
  by (simp add: saveImageToVault_def generatedName_def generateShortHash_def
        createBinary_def Let_def)

lemma example_showInt: "showInt 1700000000000 = ''1700000000000''"
  by (simp add: showInt_def showNat.simps digitChar_def)

theorem saveImageToVault_creates_and_links_witness:
  "exampleAttachmentPath Map.empty (generatedName exampleMd5 1700000000000 ''a cat'')
     = Inr ''attachments/nanogpt-1700000000000-f1b0656b.png''
   \<and> saveImageToVault exampleDecode exampleMd5 1700000000000 exampleAttachmentPath
        ''aGk='' ''a cat'' Map.empty []
     = (Inr ''![[nanogpt-1700000000000-f1b0656b.png]]'',
        [''attachments/nanogpt-1700000000000-f1b0656b.png'' \<mapsto> ''hi''],
        [Notice ''Image saved to: attachments/nanogpt-1700000000000-f1b0656b.png''])"
proof -
  have name: "generatedName exampleMd5 1700000000000 ''a cat''
                = ''nanogpt-1700000000000-f1b0656b.png''"
    by (simp add: generatedName_def exampleMd5_def example_showInt)
  have p: "exampleAttachmentPath Map.empty (generatedName exampleMd5 1700000000000 ''a cat'')
             = Inr ''attachments/nanogpt-1700000000000-f1b0656b.png''"
    by (simp add: name exampleAttachmentPath_def)
  have free: "(Map.empty :: string \<rightharpoonup> bytes)
                ''attachments/nanogpt-1700000000000-f1b0656b.png'' = None"
    by simp
  from saveImageToVault_creates_and_links
         [of exampleAttachmentPath Map.empty exampleMd5 1700000000000 "''a cat''"
             "''attachments/nanogpt-1700000000000-f1b0656b.png''" exampleDecode "''aGk=''" "[]"]
       p free
  show ?thesis
    by (simp add: name exampleDecode_def)
qed

section \<open>The API client: an empty API key\<close>

lemma fetchWithAuth_no_key:
  "apiKey c = [] \<Longrightarrow>
   fetchWithAuth net c url options sent = (Inl (Error ''API key is required''), sent)"
  by (simp add: fetchWithAuth_def)

text \<open>
  Claim C9. With the empty string as API key, \<open>fetchWithAuth\<close> throws
  \<open>API key is required\<close> and hands no request to \<open>fetch\<close>; each of
  \<open>streamChatCompletion\<close>, \<open>generateImage\<close>, \<open>webSearch\<close>, \<open>scrapeUrls\<close> and
  \<open>checkBalance\<close> rejects with that error, with no call of \<open>onChunk\<close> and no request.
  None of the five assigns to a field of the client, so the caches are as before.
\<close>

theorem empty_api_key_rejects:
  assumes "apiKey c = []"
  shows "fetchWithAuth net c url options sent = (Inl (Error ''API key is required''), sent)
       \<and> streamChatCompletion parse net c messages model temp maxTok sent
           = (Inl (Error ''API key is required''), [], sent)
       \<and> generateImage net c imageRequest sent = (Inl (Error ''API key is required''), sent)
       \<and> webSearch parse net c searchRequest sent = (Inl (Error ''API key is required''), sent)
       \<and> scrapeUrls net c scrapeRequest sent = (Inl (Error ''API key is required''), sent)
       \<and> checkBalance net c sent = (Inl (Error ''API key is required''), sent)"
  using assms
  by (simp add: fetchWithAuth_no_key streamChatCompletion_def generateImage_def
        webSearch_def scrapeUrls_def checkBalance_def Let_def)

theorem empty_api_key_rejects_witness:
  "apiKey keylessClient = []
   \<and> streamChatCompletion exampleParse modelsNetwork keylessClient [helloMessage] ''gpt-4o''
        (7 / 10) 2048 []
       = (Inl (Error ''API key is required''), [], [])
   \<and> checkBalance modelsNetwork keylessClient [] = (Inl (Error ''API key is required''), [])"
proof -
  have k: "apiKey keylessClient = []"
    by (simp add: keylessClient_def)
  from empty_api_key_rejects [OF k] k show ?thesis
    by simp
qed

section \<open>The API client: the cache of model lists\<close>










section \<open>The API client: the fallback lists\<close>











section \<open>The API client: the stream of server-sent events\<close>

lemma splitLines_not_Nil [simp]: "splitLines s \<noteq> []"
  by (induction s) (auto split: list.splits)

lemma splitLines_append:
  "splitLines (xs @ ys) = butlast (splitLines xs) @ splitLines (last (splitLines xs) @ ys)"
proof (induction xs)
  case Nil
  show ?case by simp
next
  case (Cons c cs)
  show ?case
  proof (cases "c = CHR 0x0A")
    case True
    with Cons show ?thesis by simp
  next
    case False
    obtain l ls where S: "splitLines cs = l # ls"
      by (cases "splitLines cs") simp_all
    show ?thesis
    proof (cases ls)
      case Nil
      with S Cons False show ?thesis by simp
    next
      case (Cons l' ls')
      with S Cons.IH False show ?thesis by simp
    qed
  qed
qed

lemma splitLines_no_newline:
  "l \<in> set (splitLines s) \<Longrightarrow> CHR 0x0A \<notin> set l"
  by (induction s arbitrary: l) (auto split: if_splits list.splits)

lemma splitLines_single:
  "CHR 0x0A \<notin> set s \<Longrightarrow> splitLines s = [s]"
  by (induction s) auto

lemma completeLines_append:
  "completeLines (xs @ ys)
     = completeLines xs @ completeLines (last (splitLines xs) @ ys)"
  by (simp add: completeLines_def splitLines_append [of xs ys] butlast_append)

lemma processLine_eventOfLine:
  "processLine parse line = eventOfLine parse (trim line)"
  by (simp add: processLine_def eventOfLine_def Let_def split: sum.splits option.splits)

lemma readLoop_chunks:
  "CHR 0x0A \<notin> set buffer \<Longrightarrow>
   readLoop parse buffer calls (map Chunk chunks)
     = (Inr (), calls @ concat (map (processLine parse) (completeLines (buffer @ concat chunks))))"
proof (induction chunks arbitrary: buffer calls)
  case Nil
  then show ?case by (simp add: completeLines_def splitLines_single)
next
  case (Cons v rest)
  have "last (splitLines (buffer @ v)) \<in> set (splitLines (buffer @ v))"
    by simp
  then have clean: "CHR 0x0A \<notin> set (last (splitLines (buffer @ v)))"
    by (rule splitLines_no_newline)
  have "completeLines (buffer @ concat (v # rest))
          = completeLines (buffer @ v)
            @ completeLines (last (splitLines (buffer @ v)) @ concat rest)"
    using completeLines_append [of "buffer @ v" "concat rest"] by simp
  with Cons.IH [OF clean] show ?case
    by (simp add: Let_def completeLines_def)
qed

lemma eventOfLine_length: "length (eventOfLine parse line) \<le> 1"
  by (simp add: eventOfLine_def split: sum.splits option.splits)

text \<open>
  Claim C1, as the code has it. Over a response whose body is read to its end,
  \<open>onChunk\<close> is called along the complete lines of the whole decoded text, in their
  order and however the text is cut into chunks; what follows the last line feed is
  never handled. Each line is first trimmed of white space at both ends; the trimmed
  line is then treated as the specification says, which gives no call or one call.
\<close>

theorem stream_events:
  assumes "fetchWithAuth net c (baseUrl c @ ''/chat/completions'')
             \<lparr>init_method = Some ''POST'',
              init_body = Some (ChatCompletionBody model messages True temp maxTok)\<rparr> sent
           = (Inr response, sent')"
    and "resp_body response = Some (map Chunk chunks)"
  shows "streamChatCompletion parse net c messages model temp maxTok sent
           = (Inr (),
              concat (map (\<lambda>line. eventOfLine parse (trim line))
                        (completeLines (concat chunks))),
              sent')
       \<and> length (eventOfLine parse (trim line)) \<le> 1"
proof -
  have "readLoop parse [] [] (map Chunk chunks)
          = (Inr (), concat (map (processLine parse) (completeLines (concat chunks))))"
    using readLoop_chunks [of "[]" parse "[]" chunks] by simp
  moreover have "map (processLine parse) (completeLines (concat chunks))
          = map (\<lambda>line. eventOfLine parse (trim line)) (completeLines (concat chunks))"
    by (simp add: processLine_eventOfLine)
  ultimately show ?thesis
    using assms eventOfLine_length [of parse "trim line"]
    by (simp add: streamChatCompletion_def)
qed

lemma payloadLine_text:
  "payloadLine = ''data: {'' @ [CHR 0x22] @ ''choices'' @ [CHR 0x22] @ '':[{'' @ [CHR 0x22]
     @ ''delta'' @ [CHR 0x22] @ '':{'' @ [CHR 0x22] @ ''content'' @ [CHR 0x22] @ '':''
     @ [CHR 0x22] @ ''hi'' @ [CHR 0x22] @ ''}}]}''"
  by (simp add: payloadLine_def hiPayload_def quoted_def dquote_def)

lemma example_chunkContent: "chunkContent hiChunk = Inr (Some (JStr ''hi''))"
  by (simp add: chunkContent_def hiChunk_def optProp_def)

lemma payloadLine_parts:
  "payloadLine \<noteq> [] \<and> startsWith payloadLine ''data: '' \<and> payloadLine \<noteq> ''data: [DONE]''
   \<and> drop 6 payloadLine = hiPayload"
  by (simp add: payloadLine_def startsWith_def hiPayload_def quoted_def dquote_def)

lemma example_event: "eventOfLine exampleParse payloadLine = [JStr ''hi'']"
  using payloadLine_parts
  by (simp add: eventOfLine_def exampleParse_def example_chunkContent)

lemma trim_payloadLine: "trim payloadLine = payloadLine"
  by (simp add: trim_def trimStart_def trimEnd_def isWhiteSpace_def payloadLine_text)

lemma trim_indentedLine: "trim indentedLine = payloadLine"
  by (simp add: indentedLine_def trim_def trimStart_def trimEnd_def isWhiteSpace_def
        payloadLine_text)

lemma trim_other_lines: "trim [] = [] \<and> trim ''data: [DONE]'' = ''data: [DONE]''"
  by (simp add: trim_def trimStart_def trimEnd_def isWhiteSpace_def)

lemma cutChunks_lines:
  "completeLines (concat cutChunks) = [payloadLine, [], ''data: [DONE]'']"
  by (simp add: completeLines_def cutChunks_def newline_def payloadLine_text)

lemma indentedChunks_lines:
  "completeLines (concat indentedChunks) = [indentedLine]"
  by (simp add: completeLines_def indentedChunks_def indentedLine_def newline_def
        payloadLine_text)

theorem stream_events_witness:
  "fst (snd (streamChatCompletion exampleParse (streamNetwork cutChunks) exampleClient
               [helloMessage] ''gpt-4o'' (7 / 10) 2048 [])) = [JStr ''hi'']"
proof -
  let ?init = "\<lparr>init_method = Some ''POST'',
                init_body = Some (ChatCompletionBody ''gpt-4o'' [helloMessage] True (7 / 10) 2048)\<rparr>"
  let ?url = "baseUrl exampleClient @ ''/chat/completions''"
  let ?response = "\<lparr>resp_ok = True, resp_status = 200, resp_text = Inr [],
                     resp_json = Inl SyntaxError, resp_body = Some (map Chunk cutChunks)\<rparr>"
  have f: "fetchWithAuth (streamNetwork cutChunks) exampleClient ?url ?init []
             = (Inr ?response,
                snd (fetchWithAuth (streamNetwork cutChunks) exampleClient ?url ?init []))"
    by (simp add: fetchWithAuth_def streamNetwork_def exampleClient_def Let_def)
  have b: "resp_body ?response = Some (map Chunk cutChunks)"
    by simp
  have e: "concat (map (\<lambda>line. eventOfLine exampleParse (trim line))
                     (completeLines (concat cutChunks))) = [JStr ''hi'']"
    unfolding cutChunks_lines
    by (simp add: trim_payloadLine trim_other_lines example_event)
       (simp add: eventOfLine_def)
  from stream_events [OF f b, of exampleParse "[]"] e show ?thesis
    by simp
qed

text \<open>The claim as the specification words it skips every line that does not begin
  with \<open>data: \<close>. A payload line that begins with a space is not skipped by the
  code, which trims the line first.\<close>

theorem stream_events_untrimmed_counterexample:
  "fst (snd (streamChatCompletion exampleParse (streamNetwork indentedChunks) exampleClient
               [helloMessage] ''gpt-4o'' (7 / 10) 2048 [])) = [JStr ''hi'']
   \<and> concat (map (eventOfLine exampleParse) (completeLines (concat indentedChunks))) = []"
proof -
  have r: "readLoop exampleParse [] [] (map Chunk indentedChunks) = (Inr (), [JStr ''hi''])"
    using readLoop_chunks [of "[]" exampleParse "[]" indentedChunks]
    by (simp add: indentedChunks_lines processLine_eventOfLine trim_indentedLine example_event)
  have a: "fst (snd (streamChatCompletion exampleParse (streamNetwork indentedChunks)
                       exampleClient [helloMessage] ''gpt-4o'' (7 / 10) 2048 []))
             = [JStr ''hi'']"
    by (simp add: streamChatCompletion_def fetchWithAuth_def streamNetwork_def
          exampleClient_def Let_def r)
  have b: "concat (map (eventOfLine exampleParse) (completeLines (concat indentedChunks))) = []"
    unfolding indentedChunks_lines
    by (simp add: eventOfLine_def startsWith_def indentedLine_def)
  from a b show ?thesis
    by simp
qed

section \<open>The ghost text and the Tab key\<close>

lemma applyTransaction_accept:
  assumes "ghostPos (ghost v) \<le> length (doc v)"
  shows "applyTransaction
           \<lparr>changes = Some \<lparr>changeFrom = ghostPos (ghost v), changeTo = ghostPos (ghost v),
                             changeInsert = ghostText (ghost v)\<rparr>,
            effects = [ClearGhostText], selection = None\<rparr> v
         = Inr \<lparr>doc = take (ghostPos (ghost v)) (doc v) @ ghostText (ghost v)
                        @ drop (ghostPos (ghost v)) (doc v),
                selAnchor = mapThrough (Some \<lparr>changeFrom = ghostPos (ghost v),
                                               changeTo = ghostPos (ghost v),
                                               changeInsert = ghostText (ghost v)\<rparr>)
                              (selAnchor v < selHead v) (selAnchor v),
                selHead = mapThrough (Some \<lparr>changeFrom = ghostPos (ghost v),
                                             changeTo = ghostPos (ghost v),
                                             changeInsert = ghostText (ghost v)\<rparr>)
                            (selHead v < selAnchor v) (selHead v),
                ghost = \<lparr>ghostText = [], ghostPos = 0\<rparr>\<rparr>"
  using assms
  by (simp add: applyTransaction_def ghostTextStateField_update_def Let_def)

text \<open>
  Claim C8. When the ghost text is not empty and its position lies in the document,
  the Tab handler returns true and leaves a view whose document has the ghost text
  inserted at that position and whose ghost-text state is the empty one; the view
  plugin does not react. When the ghost text is empty the handler returns false and
  the view is as before.
\<close>

theorem acceptGhostText_tab:
  "(ghostText (ghost v) \<noteq> [] \<and> ghostPos (ghost v) \<le> length (doc v) \<longrightarrow>
      acceptGhostText v
        = Inr (True,
               \<lparr>doc = take (ghostPos (ghost v)) (doc v) @ ghostText (ghost v)
                        @ drop (ghostPos (ghost v)) (doc v),
                selAnchor = mapThrough (Some \<lparr>changeFrom = ghostPos (ghost v),
                                               changeTo = ghostPos (ghost v),
                                               changeInsert = ghostText (ghost v)\<rparr>)
                              (selAnchor v < selHead v) (selAnchor v),
                selHead = mapThrough (Some \<lparr>changeFrom = ghostPos (ghost v),
                                             changeTo = ghostPos (ghost v),
                                             changeInsert = ghostText (ghost v)\<rparr>)
                            (selHead v < selAnchor v) (selHead v),
                ghost = \<lparr>ghostText = [], ghostPos = 0\<rparr>\<rparr>))
   \<and> (ghostText (ghost v) = [] \<longrightarrow> acceptGhostText v = Inr (False, v))"
proof -
  have a: "ghostText (ghost v) = [] \<longrightarrow> acceptGhostText v = Inr (False, v)"
    by (simp add: acceptGhostText_def)
  have b: "ghostText (ghost v) \<noteq> [] \<and> ghostPos (ghost v) \<le> length (doc v) \<longrightarrow>
      acceptGhostText v
        = Inr (True,
               \<lparr>doc = take (ghostPos (ghost v)) (doc v) @ ghostText (ghost v)
                        @ drop (ghostPos (ghost v)) (doc v),
                selAnchor = mapThrough (Some \<lparr>changeFrom = ghostPos (ghost v),
                                               changeTo = ghostPos (ghost v),
                                               changeInsert = ghostText (ghost v)\<rparr>)
                              (selAnchor v < selHead v) (selAnchor v),
                selHead = mapThrough (Some \<lparr>changeFrom = ghostPos (ghost v),
                                             changeTo = ghostPos (ghost v),
                                             changeInsert = ghostText (ghost v)\<rparr>)
                            (selHead v < selAnchor v) (selHead v),
                ghost = \<lparr>ghostText = [], ghostPos = 0\<rparr>\<rparr>)"
  proof (intro impI, elim conjE)
    assume ne: "ghostText (ghost v) \<noteq> []" and inside: "ghostPos (ghost v) \<le> length (doc v)"
    show "acceptGhostText v
        = Inr (True,
               \<lparr>doc = take (ghostPos (ghost v)) (doc v) @ ghostText (ghost v)
                        @ drop (ghostPos (ghost v)) (doc v),
                selAnchor = mapThrough (Some \<lparr>changeFrom = ghostPos (ghost v),
                                               changeTo = ghostPos (ghost v),
                                               changeInsert = ghostText (ghost v)\<rparr>)
                              (selAnchor v < selHead v) (selAnchor v),
                selHead = mapThrough (Some \<lparr>changeFrom = ghostPos (ghost v),
                                             changeTo = ghostPos (ghost v),
                                             changeInsert = ghostText (ghost v)\<rparr>)
                            (selHead v < selAnchor v) (selHead v),
                ghost = \<lparr>ghostText = [], ghostPos = 0\<rparr>\<rparr>)"
      using ne
      by (simp add: acceptGhostText_def dispatch_def applyTransaction_accept [OF inside]
            ghostTextClearer_update_def isSetGhostText_def Let_def)
  qed
  from a b show ?thesis
    by blast
qed

theorem acceptGhostText_tab_witness:
  "ghostText (ghost ghostView) \<noteq> [] \<and> ghostPos (ghost ghostView) \<le> length (doc ghostView)
   \<and> acceptGhostText ghostView
       = Inr (True, \<lparr>doc = ''hello world'', selAnchor = 6, selHead = 6,
                     ghost = \<lparr>ghostText = [], ghostPos = 0\<rparr>\<rparr>)
   \<and> ghostText (ghost plainView) = []
   \<and> acceptGhostText plainView = Inr (False, plainView)"
  using acceptGhostText_tab [of ghostView] acceptGhostText_tab [of plainView]
  by (simp add: ghostView_def plainView_def mapThrough_def Let_def)

section \<open>Inline autocomplete: request ids\<close>

lemma showNotice_fields [simp]:
  "inlineAutocompleteRequestId (showNotice s n p) = inlineAutocompleteRequestId p"
  "inlineAutocompleteInFlight (showNotice s n p) = inlineAutocompleteInFlight p"
  "isApplyingAutocomplete (showNotice s n p) = isApplyingAutocomplete p"
  "pluginSettings (showNotice s n p) = pluginSettings p"
  by (simp_all add: showNotice_def)

lemma helloRequest_id [simp]: "pc_requestId (helloRequest n) = n"
  by (simp add: helloRequest_def)

lemma begin_issues_next_id:
  "inlineAutocomplete_begin e file silent p = (Inr (Some r), p', e') \<Longrightarrow>
   pc_requestId r = inlineAutocompleteRequestId p + 1
   \<and> inlineAutocompleteRequestId p' = pc_requestId r"
  by (auto simp add: inlineAutocomplete_begin_def Let_def split: if_splits sum.splits)

lemma begin_returns_unchanged:
  "inlineAutocomplete_begin e file silent p = (Inr None, p', e') \<Longrightarrow> p' = p \<and> e' = e"
  by (auto simp add: inlineAutocomplete_begin_def Let_def split: if_splits sum.splits)

lemma begin_counter_mono:
  "inlineAutocomplete_begin e file silent p = (res, p', e') \<Longrightarrow>
   inlineAutocompleteRequestId p \<le> inlineAutocompleteRequestId p'"
  by (auto simp add: inlineAutocomplete_begin_def Let_def split: if_splits sum.splits)

lemma apply_counter:
  "inlineAutocomplete_apply r completion p e = (res, p', e') \<Longrightarrow>
   inlineAutocompleteRequestId p' = inlineAutocompleteRequestId p"
  by (auto simp add: inlineAutocomplete_apply_def Let_def split: if_splits sum.splits prod.splits)

lemma resume_counter:
  "inlineAutocompleteRequestId (fst (inlineAutocomplete_resume r outcome p e))
     = inlineAutocompleteRequestId p"
proof (cases outcome)
  case (Inl err)
  then show ?thesis by (simp add: inlineAutocomplete_resume_def)
next
  case (Inr completion)
  obtain res p' e' where a: "inlineAutocomplete_apply r completion p e = (res, p', e')"
    by (cases "inlineAutocomplete_apply r completion p e") auto
  from apply_counter [OF a] a Inr show ?thesis
    by (cases res) (simp_all add: inlineAutocomplete_resume_def)
qed

lemma resume_not_in_flight:
  "\<not> inlineAutocompleteInFlight (fst (inlineAutocomplete_resume r outcome p e))"
  by (simp add: inlineAutocomplete_resume_def split: sum.splits prod.splits)

lemma resume_stale:
  "pc_requestId r \<noteq> inlineAutocompleteRequestId p \<Longrightarrow>
   inlineAutocomplete_resume r (Inr completion) p e
     = (p\<lparr>inlineAutocompleteInFlight := False\<rparr>, e)"
  by (simp add: inlineAutocomplete_resume_def inlineAutocomplete_apply_def)

lemma resume_failed:
  "snd (inlineAutocomplete_resume r (Inl err) p e) = e"
  by (simp add: inlineAutocomplete_resume_def)

lemma pluginStep_idsInOrder:
  assumes "idsInOrder w"
  shows "idsInOrder (pluginStep w ev)"
proof (cases ev)
  case (Invoke f silent)
  obtain res p' e' where b: "inlineAutocomplete_begin (pw_editor w) f silent (pw_plugin w)
                               = (res, p', e')"
    by (cases "inlineAutocomplete_begin (pw_editor w) f silent (pw_plugin w)") auto
  have mono: "inlineAutocompleteRequestId (pw_plugin w) \<le> inlineAutocompleteRequestId p'"
    by (rule begin_counter_mono [OF b])
  show ?thesis
  proof (cases res)
    case (Inl err)
    with Invoke b assms mono show ?thesis
      by (auto simp add: idsInOrder_def)
  next
    case (Inr opt)
    show ?thesis
    proof (cases opt)
      case None
      with Inr Invoke b assms mono show ?thesis
        by (auto simp add: idsInOrder_def)
    next
      case (Some r)
      from begin_issues_next_id [of "pw_editor w" f silent "pw_plugin w" r p' e'] b Inr Some
      have id: "pc_requestId r = inlineAutocompleteRequestId (pw_plugin w) + 1"
        and cnt: "inlineAutocompleteRequestId p' = pc_requestId r"
        by simp_all
      from Some Inr Invoke b assms id cnt show ?thesis
        by (auto simp add: idsInOrder_def sorted_wrt_append)
    qed
  qed
next
  case (Settle r outcome)
  obtain p' e' where s: "inlineAutocomplete_resume r outcome (pw_plugin w) (pw_editor w) = (p', e')"
    by (cases "inlineAutocomplete_resume r outcome (pw_plugin w) (pw_editor w)") auto
  from resume_counter [of r outcome "pw_plugin w" "pw_editor w"] s
  have "inlineAutocompleteRequestId p' = inlineAutocompleteRequestId (pw_plugin w)"
    by simp
  with Settle s assms show ?thesis
    by (simp add: idsInOrder_def)
next
  case (UserTransaction spec)
  with assms show ?thesis
    by (simp add: idsInOrder_def split: sum.splits)
qed

lemma pluginRun_idsInOrder:
  "idsInOrder w \<Longrightarrow> idsInOrder (pluginRun w events)"
  unfolding pluginRun_def
  by (induction events arbitrary: w) (simp_all add: pluginStep_idsInOrder)

text \<open>
  Claim C3. An invocation that goes on to request a completion takes the counter
  plus one as its id and leaves the counter at that id; an invocation that returns
  at one of its tests changes nothing. Over any sequence of invocations, settled
  completions and user transactions that starts with no id issued, the ids are
  strictly increasing in the order of issue. When a completion settles and the id
  of its invocation is not the counter, the editor is as before, no ghost text is
  set and nothing is inserted, and of the plugin only the in-flight flag is reset.
  When the request has failed the editor is as before as well.
\<close>

theorem stale_completion_discarded:
  "(inlineAutocomplete_begin e f silent p = (Inr (Some r'), p', e') \<longrightarrow>
      pc_requestId r' = inlineAutocompleteRequestId p + 1
      \<and> inlineAutocompleteRequestId p' = pc_requestId r')
   \<and> (inlineAutocomplete_begin e f silent p = (Inr None, p', e') \<longrightarrow> p' = p \<and> e' = e)
   \<and> (issued w = [] \<longrightarrow> sorted_wrt (<) (issued (pluginRun w events)))
   \<and> (pc_requestId r \<noteq> inlineAutocompleteRequestId q \<longrightarrow>
        inlineAutocomplete_resume r (Inr completion) q d
          = (q\<lparr>inlineAutocompleteInFlight := False\<rparr>, d))
   \<and> snd (inlineAutocomplete_resume r (Inl err) q d) = d"
proof -
  have run: "issued w = [] \<longrightarrow> sorted_wrt (<) (issued (pluginRun w events))"
  proof
    assume "issued w = []"
    then have "idsInOrder w"
      by (simp add: idsInOrder_def)
    then have "idsInOrder (pluginRun w events)"
      by (rule pluginRun_idsInOrder)
    then show "sorted_wrt (<) (issued (pluginRun w events))"
      by (simp add: idsInOrder_def)
  qed
  from run begin_issues_next_id [of e f silent p r' p' e']
       begin_returns_unchanged [of e f silent p p' e']
       resume_stale [of r q completion d] resume_failed [of r err q d]
  show ?thesis
    by blast
qed

lemma trim_hello: "trim ''hello '' = ''hello'' \<and> trim [] = []"
  by (simp add: trim_def trimStart_def trimEnd_def isWhiteSpace_def)

lemma plain_cursor:
  "getCursor plainEditor = (0, 6) \<and> getCursor ghostEditor = (0, 6)"
  by (simp add: getCursor_def offsetToPos_def plainEditor_def plainView_def ghostEditor_def
        ghostView_def Let_def)

lemma plain_line:
  "getLine plainEditor 0 = Inr ''hello '' \<and> getLine ghostEditor 0 = Inr ''hello ''"
  by (simp add: getLine_def plainEditor_def plainView_def ghostEditor_def ghostView_def Let_def)

lemma plain_offset:
  "posToOffset plainEditor (0, 6) = 6 \<and> posToOffset ghostEditor (0, 6) = 6"
  by (simp add: posToOffset_def plainEditor_def plainView_def ghostEditor_def ghostView_def
        Let_def)

lemma plain_selected:
  "\<not> somethingSelected plainEditor \<and> \<not> somethingSelected ghostEditor"
  by (simp add: somethingSelected_def plainEditor_def plainView_def ghostEditor_def
        ghostView_def)

lemma clear_plain:
  "clearGhostText plainEditor = Inr plainEditor \<and> clearGhostText ghostEditor = Inr plainEditor"
  by (simp add: clearGhostText_def dispatch_def applyTransaction_def clearSpec_def
        ghostTextStateField_update_def docChanged_def ghostTextClearer_update_def
        mapThrough_def plainEditor_def plainView_def ghostEditor_def ghostView_def Let_def)

lemma set_plain:
  "setGhostText plainEditor (0, 6) ''world'' = Inr (True, ghostEditor)"
  using plain_offset
  by (simp add: setGhostText_def dispatch_def applyTransaction_def
        ghostTextStateField_update_def docChanged_def ghostTextClearer_update_def
        isSetGhostText_def mapThrough_def plainEditor_def plainView_def ghostEditor_def
        ghostView_def Let_def)

lemma example_begin:
  "\<not> inlineAutocompleteInFlight p \<Longrightarrow> pluginSettings p = exampleSettings \<Longrightarrow>
   e = plainEditor \<or> e = ghostEditor \<Longrightarrow>
   inlineAutocomplete_begin e noteA True p
     = (Inr (Some (helloRequest (inlineAutocompleteRequestId p + 1))),
        p\<lparr>inlineAutocompleteRequestId := inlineAutocompleteRequestId p + 1,
          inlineAutocompleteInFlight := True\<rparr>,
        plainEditor)"
  using plain_cursor plain_line plain_selected clear_plain plain_offset trim_hello
  by (auto simp add: inlineAutocomplete_begin_def helloRequest_def showNotice_def getValue_def
        exampleSettings_def Let_def)
     (simp_all add: plainEditor_def plainView_def)

lemma example_settle:
  "inlineAutocompleteRequestId p = n \<Longrightarrow>
   inlineAutocomplete_resume (helloRequest n) (Inr '' world '') p plainEditor
     = (p\<lparr>inlineAutocompleteInFlight := False\<rparr>, ghostEditor)"
  using plain_cursor plain_line set_plain
  by (simp add: inlineAutocomplete_resume_def inlineAutocomplete_apply_def helloRequest_def
        showNotice_def startsWith_def trimStart_def trimEnd_def isWhiteSpace_def Let_def)

lemma example_run:
  "issued (pluginRun restingWorld
             [Invoke noteA True, Invoke noteA True, Settle (helloRequest 1) (Inr '' world ''),
              Invoke noteA True]) = [1, 2]"
proof -
  let ?p1 = "restingPlugin\<lparr>inlineAutocompleteRequestId := 1, inlineAutocompleteInFlight := True\<rparr>"
  let ?w1 = "\<lparr>pw_plugin = ?p1, pw_editor = plainEditor, issued = [1]\<rparr>"
  let ?p2 = "?p1\<lparr>inlineAutocompleteInFlight := False\<rparr>"
  let ?w2 = "\<lparr>pw_plugin = ?p2, pw_editor = ghostEditor, issued = [1]\<rparr>"
  have s1: "pluginStep restingWorld (Invoke noteA True) = ?w1"
    using example_begin [of restingPlugin plainEditor]
    by (simp add: restingWorld_def restingPlugin_def)
  have s2: "pluginStep ?w1 (Invoke noteA True) = ?w1"
    by (simp add: inlineAutocomplete_begin_def)
  have s3: "pluginStep ?w1 (Settle (helloRequest 1) (Inr '' world '')) = ?w2"
    using example_settle [of ?p1 1] by simp
  have s4: "issued (pluginStep ?w2 (Invoke noteA True)) = [1, 2]"
    using example_begin [of ?p2 ghostEditor]
    by (simp add: restingPlugin_def)
  show ?thesis
    by (simp only: pluginRun_def foldl_Cons foldl_Nil s1 s2 s3 s4)
qed

theorem stale_completion_discarded_witness:
  "inlineAutocomplete_begin plainEditor noteA True restingPlugin
     = (Inr (Some (helloRequest 1)),
        restingPlugin\<lparr>inlineAutocompleteRequestId := 1, inlineAutocompleteInFlight := True\<rparr>,
        plainEditor)
   \<and> pc_requestId (helloRequest 1) = inlineAutocompleteRequestId restingPlugin + 1
   \<and> issued restingWorld = []
   \<and> issued (pluginRun restingWorld
               [Invoke noteA True, Invoke noteA True, Settle (helloRequest 1) (Inr '' world ''),
                Invoke noteA True]) = [1, 2]
   \<and> pc_requestId (helloRequest 1)
       \<noteq> inlineAutocompleteRequestId (restingPlugin\<lparr>inlineAutocompleteRequestId := 2\<rparr>)
   \<and> inlineAutocomplete_resume (helloRequest 1) (Inr '' world '')
        (restingPlugin\<lparr>inlineAutocompleteRequestId := 2\<rparr>) plainEditor
       = (restingPlugin\<lparr>inlineAutocompleteRequestId := 2, inlineAutocompleteInFlight := False\<rparr>,
          plainEditor)
   \<and> inlineAutocomplete_resume (helloRequest 1) (Inr '' world '')
        (restingPlugin\<lparr>inlineAutocompleteRequestId := 1\<rparr>) plainEditor
       = (restingPlugin\<lparr>inlineAutocompleteRequestId := 1, inlineAutocompleteInFlight := False\<rparr>,
          ghostEditor)
   \<and> inlineAutocomplete_begin plainEditor noteA True
        (restingPlugin\<lparr>inlineAutocompleteInFlight := True\<rparr>)
       = (Inr None, restingPlugin\<lparr>inlineAutocompleteInFlight := True\<rparr>, plainEditor)"
proof -
  have busy: "inlineAutocomplete_begin plainEditor noteA True
        (restingPlugin\<lparr>inlineAutocompleteInFlight := True\<rparr>)
       = (Inr None, restingPlugin\<lparr>inlineAutocompleteInFlight := True\<rparr>, plainEditor)"
    by (simp add: inlineAutocomplete_begin_def)
  note returned = stale_completion_discarded
         [where e = plainEditor and f = noteA and silent = True
            and p = "restingPlugin\<lparr>inlineAutocompleteInFlight := True\<rparr>"
            and p' = "restingPlugin\<lparr>inlineAutocompleteInFlight := True\<rparr>"
            and e' = plainEditor and w = restingWorld and events = "[]"
            and r = "helloRequest 1" and r' = "helloRequest 1"
            and q = "restingPlugin\<lparr>inlineAutocompleteRequestId := 2\<rparr>"
            and completion = "'' world ''" and d = plainEditor and err = TypeError]
  have b: "inlineAutocomplete_begin plainEditor noteA True restingPlugin
     = (Inr (Some (helloRequest 1)),
        restingPlugin\<lparr>inlineAutocompleteRequestId := 1, inlineAutocompleteInFlight := True\<rparr>,
        plainEditor)"
    using example_begin [of restingPlugin plainEditor]
    by (simp add: restingPlugin_def)
  have i: "issued restingWorld = []"
    by (simp add: restingWorld_def)
  have ne: "pc_requestId (helloRequest 1)
       \<noteq> inlineAutocompleteRequestId (restingPlugin\<lparr>inlineAutocompleteRequestId := 2\<rparr>)"
    by simp
  have fresh: "inlineAutocomplete_resume (helloRequest 1) (Inr '' world '')
        (restingPlugin\<lparr>inlineAutocompleteRequestId := 1\<rparr>) plainEditor
       = (restingPlugin\<lparr>inlineAutocompleteRequestId := 1, inlineAutocompleteInFlight := False\<rparr>,
          ghostEditor)"
    using example_settle [of "restingPlugin\<lparr>inlineAutocompleteRequestId := 1\<rparr>" 1] by simp
  from stale_completion_discarded
         [where e = plainEditor and f = noteA and silent = True and p = restingPlugin
            and r' = "helloRequest 1"
            and p' = "restingPlugin\<lparr>inlineAutocompleteRequestId := 1,
                                    inlineAutocompleteInFlight := True\<rparr>"
            and e' = plainEditor and w = restingWorld
            and events = "[Invoke noteA True, Invoke noteA True,
                           Settle (helloRequest 1) (Inr '' world ''), Invoke noteA True]"
            and r = "helloRequest 1"
            and q = "restingPlugin\<lparr>inlineAutocompleteRequestId := 2\<rparr>"
            and completion = "'' world ''" and d = plainEditor and err = TypeError]
       returned busy b i ne fresh example_run
  show ?thesis
    by simp
qed

section \<open>The chat panel: one generation in flight\<close>












end
